(* ===== verification/Prelude.thy ===== *)
theory Prelude
  imports Main "HOL-Library.Word"
begin

text \<open>
  Shared vocabulary of the development: the names of the model's types (lines and
  texts are Python \<open>str\<close> values, modelled as \<^typ>\<open>string\<close>, one \<^typ>\<open>char\<close> per
  code point below 256), the Python exceptions the script can raise and print, and
  generic facts on lists and sums that the component theories share.
  The collection \<open>docgen_simps\<close> gathers the unfolding facts of the small string
  predicates; \<open>scan_simps\<close> those of the scanner's loop.
\<close>

named_theorems docgen_simps "unfolding facts of the document-level string predicates"
named_theorems scan_simps "equations of the scanner loop used by the component proofs"

type_synonym line = string
type_synonym doc_text = string

abbreviation NL :: char where "NL \<equiv> CHR 0x0A"
abbreviation CR :: char where "CR \<equiv> CHR 0x0D"

text \<open>
  Python exceptions that reach the script's handlers.  Each carries the text
  \<open>str(e)\<close> that an \<open>f"... {e}"\<close> prints.
\<close>

datatype py_exc =
    TypeError string
  | OSError string
  | UnicodeDecodeError string

fun exc_str :: "py_exc \<Rightarrow> string" where
  "exc_str (TypeError m) = m"
| "exc_str (OSError m) = m"
| "exc_str (UnicodeDecodeError m) = m"

subsection \<open>Generic list facts\<close>

lemma dropWhile_Cons_not: "dropWhile P xs = y # ys \<Longrightarrow> \<not> P y"
  by (induction xs) (auto split: if_splits)

end
