(* ===== verification/PyStr.thy ===== *)
theory PyStr
  imports Prelude
begin

text \<open>
  The Python string operations \<open>docgen.py\<close> relies on, modelled from the Python
  language reference (they are library code, not part of the repository):
  \<open>str.isspace\<close> on one character, \<open>str.strip\<close> (used on every line in
  \<open>process\<close>, lines 24 and 32, and on the command text in the annotation, line 26).
  Characters are code points below 256; \<open>str.isspace\<close> there holds for
  U+0009..U+000D, U+001C..U+0020, U+0085 and U+00A0.
\<close>

subsection \<open>Whitespace and strip\<close>

definition py_isspace :: "char \<Rightarrow> bool" where
  "py_isspace c =
     (let n = of_char c :: nat
      in (9 \<le> n \<and> n \<le> 13) \<or> (28 \<le> n \<and> n \<le> 32) \<or> n = 133 \<or> n = 160)"

definition py_lstrip :: "string \<Rightarrow> string" where
  "py_lstrip s = dropWhile py_isspace s"

definition py_rstrip :: "string \<Rightarrow> string" where
  "py_rstrip s = rev (dropWhile py_isspace (rev s))"

definition py_strip :: "string \<Rightarrow> string" where
  "py_strip s = py_rstrip (py_lstrip s)"

lemma py_isspace_NL [simp]: "py_isspace NL"
  and py_isspace_CR [simp]: "py_isspace CR"
  and py_isspace_space [simp]: "py_isspace (CHR '' '')"
  by (simp_all add: py_isspace_def)

lemma py_lstrip_append_spaces:
  "\<forall>c\<in>set a. py_isspace c \<Longrightarrow> py_lstrip (a @ s) = py_lstrip s"
  by (simp add: py_lstrip_def)

lemma py_rstrip_append_spaces:
  "\<forall>c\<in>set b. py_isspace c \<Longrightarrow> py_rstrip (s @ b) = py_rstrip s"
  by (simp add: py_rstrip_def dropWhile_append)

lemma py_lstrip_append:
  "py_lstrip s \<noteq> [] \<Longrightarrow> py_lstrip (s @ b) = py_lstrip s @ b"
  by (auto simp add: py_lstrip_def dropWhile_append)

lemma py_lstrip_Nil_iff: "py_lstrip s = [] \<longleftrightarrow> (\<forall>c\<in>set s. py_isspace c)"
  by (simp add: py_lstrip_def)

lemma py_rstrip_Nil_iff: "py_rstrip s = [] \<longleftrightarrow> (\<forall>c\<in>set s. py_isspace c)"
  by (simp add: py_rstrip_def)

lemma py_strip_surrounding_spaces:
  assumes a: "\<forall>c\<in>set a. py_isspace c" and b: "\<forall>c\<in>set b. py_isspace c"
  shows "py_strip (a @ s @ b) = py_strip s"
proof (cases "py_lstrip s = []")
  case True
  then have s: "\<forall>c\<in>set s. py_isspace c" by (simp add: py_lstrip_Nil_iff)
  have "py_lstrip (a @ s @ b) = []" using a s b by (auto simp add: py_lstrip_Nil_iff)
  then show ?thesis using True by (simp add: py_strip_def py_rstrip_def)
next
  case False
  then show ?thesis using a b
    by (simp add: py_strip_def py_lstrip_append_spaces py_lstrip_append py_rstrip_append_spaces)
qed

lemma py_strip_decomp:
  "\<exists>a b. s = a @ py_strip s @ b \<and> (\<forall>c\<in>set a. py_isspace c) \<and> (\<forall>c\<in>set b. py_isspace c)"
proof -
  let ?l = "py_lstrip s"
  have s: "s = takeWhile py_isspace s @ ?l" by (simp add: py_lstrip_def)
  have "rev ?l = takeWhile py_isspace (rev ?l) @ dropWhile py_isspace (rev ?l)" by simp
  then have l: "?l = py_rstrip ?l @ rev (takeWhile py_isspace (rev ?l))"
    by (metis py_rstrip_def rev_append rev_rev_ident)
  have "s = takeWhile py_isspace s @ py_strip s @ rev (takeWhile py_isspace (rev ?l))"
    using s l by (metis py_strip_def)
  moreover have "\<forall>c\<in>set (takeWhile py_isspace s). py_isspace c"
    by (auto dest: set_takeWhileD)
  moreover have "\<forall>c\<in>set (rev (takeWhile py_isspace (rev ?l))). py_isspace c"
    by (auto dest: set_takeWhileD)
  ultimately show ?thesis by blast
qed

lemma py_strip_ends:
  assumes ne: "py_strip s \<noteq> []"
  shows "\<not> py_isspace (hd (py_strip s)) \<and> \<not> py_isspace (last (py_strip s))"
proof
  let ?l = "py_lstrip s"
  have d: "py_strip s = rev (dropWhile py_isspace (rev ?l))"
    by (simp add: py_strip_def py_rstrip_def)
  with ne have dne: "dropWhile py_isspace (rev ?l) \<noteq> []" by auto
  have "?l = py_strip s @ rev (takeWhile py_isspace (rev ?l))"
    by (metis d rev_append rev_rev_ident takeWhile_dropWhile_id)
  with ne have "hd ?l = hd (py_strip s)" and lne: "?l \<noteq> []"
    by (metis hd_append2, auto)
  moreover have "\<not> py_isspace (hd ?l)"
    using lne by (simp add: py_lstrip_def hd_dropWhile)
  ultimately show "\<not> py_isspace (hd (py_strip s))" by simp
  show "\<not> py_isspace (last (py_strip s))"
    using dne d by (simp add: last_rev hd_dropWhile)
qed

lemma py_strip_id:
  assumes "t = [] \<or> \<not> py_isspace (hd t) \<and> \<not> py_isspace (last t)"
  shows "py_strip t = t"
proof (cases "t = []")
  case False
  with assms have h: "\<not> py_isspace (hd t)" and l: "\<not> py_isspace (last t)" by auto
  have "py_lstrip t = t" using False h by (simp add: py_lstrip_def dropWhile_eq_self_iff)
  moreover have "dropWhile py_isspace (rev t) = rev t"
    using False l by (simp add: dropWhile_eq_self_iff hd_rev)
  ultimately show ?thesis by (simp add: py_strip_def py_rstrip_def)
qed (simp add: py_strip_def py_lstrip_def py_rstrip_def)

lemma py_strip_eqI:
  assumes "s = a @ t @ b" "\<forall>c\<in>set a. py_isspace c" "\<forall>c\<in>set b. py_isspace c"
    and "t = [] \<or> \<not> py_isspace (hd t) \<and> \<not> py_isspace (last t)"
  shows "py_strip s = t"
  using assms by (simp add: py_strip_surrounding_spaces py_strip_id)

text \<open>
  \<open>str.strip\<close> meets its documented contract: the result is the part of the
  string left after removing leading and trailing whitespace, so that it neither
  starts nor ends with whitespace.
\<close>

lemma py_strip_spec:
  "py_strip s = t \<longleftrightarrow>
   (\<exists>a b. s = a @ t @ b \<and> (\<forall>c\<in>set a. py_isspace c) \<and> (\<forall>c\<in>set b. py_isspace c) \<and>
      (t = [] \<or> \<not> py_isspace (hd t) \<and> \<not> py_isspace (last t)))"
  (is "_ \<longleftrightarrow> (\<exists>a b. ?P a b)")
proof
  assume t: "py_strip s = t"
  obtain a b where d: "s = a @ py_strip s @ b" "\<forall>c\<in>set a. py_isspace c" "\<forall>c\<in>set b. py_isspace c"
    using py_strip_decomp by blast
  have e: "t = [] \<or> \<not> py_isspace (hd t) \<and> \<not> py_isspace (last t)"
  proof (cases "t = []")
    case False
    with py_strip_ends [of s] t show ?thesis by simp
  qed simp
  from d(1) t have "s = a @ t @ b" by simp
  with d(2,3) e have "?P a b" by simp
  then show "\<exists>a b. ?P a b" by blast
next
  assume "\<exists>a b. ?P a b"
  then obtain a b where "?P a b" by (elim exE)
  then show "py_strip s = t" by (intro py_strip_eqI [of s a t b]) simp_all
qed

subsection \<open>str.replace and universal newlines\<close>

text \<open>
  \<open>s.replace(old, new)\<close> scans left to right and replaces non-overlapping
  occurrences of a non-empty \<open>old\<close>; with an empty \<open>old\<close> it inserts
  \<open>new\<close> before every character and at the end.
\<close>

function py_replace_ne :: "string \<Rightarrow> string \<Rightarrow> string \<Rightarrow> string" where
  "py_replace_ne old new [] = []"
| "py_replace_ne old new (c # s) =
     (if old \<noteq> [] \<and> take (length old) (c # s) = old
      then new @ py_replace_ne old new (drop (length old) (c # s))
      else c # py_replace_ne old new s)"
  by pat_completeness auto
termination
  by (relation "measure (\<lambda>(old, new, s). length s)") auto

definition py_replace :: "string \<Rightarrow> string \<Rightarrow> string \<Rightarrow> string" where
  "py_replace s old new =
     (if old = [] then new @ concat (map (\<lambda>c. c # new) s) else py_replace_ne old new s)"

text \<open>
  Text mode (\<open>open(path, 'r')\<close> with the default \<open>newline=None\<close>, and
  \<open>subprocess.run(..., text=True)\<close>) translates newlines as the library's
  \<open>IncrementalNewlineDecoder\<close> and \<open>Popen._translate_newlines\<close> do:
  \<open>data.replace("\r\n", "\n").replace("\r", "\n")\<close>.
\<close>

definition translate_newlines :: "string \<Rightarrow> string" where
  "translate_newlines s = py_replace (py_replace s [CR, NL] [NL]) [CR] [NL]"

text \<open>A one-pass reference definition of the same translation.\<close>

fun univ_newlines :: "string \<Rightarrow> string" where
  "univ_newlines [] = []"
| "univ_newlines [c] = [if c = CR then NL else c]"
| "univ_newlines (c # d # s) =
     (if c = CR \<and> d = NL then NL # univ_newlines s
      else (if c = CR then NL else c) # univ_newlines (d # s))"

lemma py_replace_CRNL:
  "py_replace_ne [CR, NL] [NL] (CR # NL # s) = NL # py_replace_ne [CR, NL] [NL] s"
  "d \<noteq> NL \<Longrightarrow> py_replace_ne [CR, NL] [NL] (CR # d # s) = CR # py_replace_ne [CR, NL] [NL] (d # s)"
  "c \<noteq> CR \<Longrightarrow> py_replace_ne [CR, NL] [NL] (c # s) = c # py_replace_ne [CR, NL] [NL] s"
  "py_replace_ne [CR, NL] [NL] [c] = [c]"
  by simp_all

lemma py_replace_CR:
  "py_replace_ne [CR] [NL] (c # s) = (if c = CR then NL else c) # py_replace_ne [CR] [NL] s"
  by simp

lemma translate_newlines_univ: "translate_newlines s = univ_newlines s"
proof (induction s rule: univ_newlines.induct)
  case (3 c d s)
  then show ?case
    by (cases "c = CR"; cases "d = NL")
       (simp_all add: translate_newlines_def py_replace_def py_replace_CRNL py_replace_CR)
qed (simp_all add: translate_newlines_def py_replace_def)

lemma CR_not_in_univ_newlines: "CR \<notin> set (univ_newlines s)"
  by (induction s rule: univ_newlines.induct) auto

text \<open>Text read or captured in text mode contains no carriage return.\<close>

lemma translate_newlines_no_CR: "CR \<notin> set (translate_newlines s)"
  using CR_not_in_univ_newlines by (simp add: translate_newlines_univ)

subsection \<open>Iterating over a text file\<close>

text \<open>
  \<open>for l in f\<close> over a file opened in text mode yields the (newline-translated)
  contents cut after every \<open>"\n"\<close>; each line keeps its \<open>"\n"\<close>, and a last line
  without one is yielded as it is.  \<open>cur\<close> is the part of the current line read so
  far.
\<close>

fun split_lines_from :: "string \<Rightarrow> string \<Rightarrow> string list" where
  "split_lines_from cur [] = (if cur = [] then [] else [cur])"
| "split_lines_from cur (c # s) =
     (if c = NL then (cur @ [NL]) # split_lines_from [] s else split_lines_from (cur @ [c]) s)"

definition split_lines :: "string \<Rightarrow> string list" where
  "split_lines s = split_lines_from [] s"

text \<open>
  Well-formed line lists, the shape file iteration produces: no line is empty, a
  newline occurs only as the last character of a line, and every line but the last
  ends with one.
\<close>

fun wf_lines :: "string list \<Rightarrow> bool" where
  "wf_lines [] = True"
| "wf_lines (l # ls) =
     (l \<noteq> [] \<and> NL \<notin> set (butlast l) \<and> (ls \<noteq> [] \<longrightarrow> last l = NL) \<and> wf_lines ls)"

lemma concat_split_lines_from: "concat (split_lines_from cur s) = cur @ s"
  by (induction cur s rule: split_lines_from.induct) auto

lemma split_lines_from_append:
  "NL \<notin> set x \<Longrightarrow> split_lines_from cur (x @ s) = split_lines_from (cur @ x) s"
  by (induction x arbitrary: cur) auto

lemma wf_split_lines_from: "NL \<notin> set cur \<Longrightarrow> wf_lines (split_lines_from cur s)"
proof (induction cur s rule: split_lines_from.induct)
  case (2 cur c s)
  show ?case
  proof (cases "c = NL")
    case True
    with "2.IH"(1) "2.prems" show ?thesis by auto
  next
    case False
    with "2.IH"(2) "2.prems" show ?thesis by auto
  qed
qed (auto dest: in_set_butlastD)

text \<open>A well-formed list of lines is exactly what reading its concatenation yields.\<close>

lemma split_lines_concat_wf: "wf_lines ls \<Longrightarrow> split_lines (concat ls) = ls"
proof (induction ls)
  case (Cons l ls)
  show ?case
  proof (cases "last l = NL")
    case True
    with Cons.prems obtain x where l: "l = x @ [NL]" and x: "NL \<notin> set x"
      by (metis append_butlast_last_id wf_lines.simps(2))
    then have "split_lines (concat (l # ls)) = l # split_lines (concat ls)"
      by (simp add: split_lines_def split_lines_from_append)
    with Cons show ?thesis by simp
  next
    case False
    with Cons.prems have "ls = []" and ne: "l \<noteq> []" and nb: "NL \<notin> set (butlast l)"
      by auto
    from ne have "l = butlast l @ [last l]" by simp
    with nb False have "NL \<notin> set l" by (metis Un_iff empty_iff empty_set list.set(2) set_append singletonD)
    with \<open>ls = []\<close> ne show ?thesis
      using split_lines_from_append [of l "[]" "[]"] by (simp add: split_lines_def)
  qed
qed (simp add: split_lines_def)

text \<open>The lines a text file yields concatenate back to its (translated) contents, and
  they are well formed.\<close>

lemma concat_split_lines: "concat (split_lines s) = s"
  by (simp add: split_lines_def concat_split_lines_from)

lemma wf_split_lines: "wf_lines (split_lines s)"
  by (simp add: split_lines_def wf_split_lines_from)

subsection \<open>Formatting integers with %d\<close>

definition digit_char :: "nat \<Rightarrow> char" where
  "digit_char d = ''0123456789'' ! d"

lemma of_char_digit_char: "d < 10 \<Longrightarrow> (of_char (digit_char d) :: nat) = 48 + d"
  by (auto simp: digit_char_def less_Suc_eq numeral_eq_Suc)

fun nat_digits :: "nat \<Rightarrow> string" where
  "nat_digits n = (if n < 10 then [digit_char n] else nat_digits (n div 10) @ [digit_char (n mod 10)])"

declare nat_digits.simps [simp del]

definition py_str_int :: "int \<Rightarrow> string" where
  "py_str_int i = (if i < 0 then CHR ''-'' # nat_digits (nat (- i)) else nat_digits (nat i))"

text \<open>Reading a decimal back, as \<open>int(s)\<close> does on the strings \<open>%d\<close> produces.\<close>

definition digits_value :: "string \<Rightarrow> nat" where
  "digits_value s = foldl (\<lambda>acc c. 10 * acc + (of_char c - 48)) 0 s"

definition py_int_of :: "string \<Rightarrow> int" where
  "py_int_of s =
     (if s \<noteq> [] \<and> hd s = CHR ''-'' then - int (digits_value (tl s)) else int (digits_value s))"

lemma digits_value_nat_digits: "digits_value (nat_digits n) = n"
proof (induction n rule: nat_digits.induct)
  case (1 n)
  show ?case
  proof (cases "n < 10")
    case True
    then show ?thesis by (simp add: nat_digits.simps digits_value_def of_char_digit_char)
  next
    case False
    with "1.IH" have "foldl (\<lambda>acc c. 10 * acc + (of_char c - 48)) 0 (nat_digits (n div 10)) = n div 10"
      by (simp add: digits_value_def)
    with False show ?thesis
      by (subst nat_digits.simps) (simp add: digits_value_def of_char_digit_char)
  qed
qed

lemma nat_digits_chars: "c \<in> set (nat_digits n) \<Longrightarrow> 48 \<le> (of_char c :: nat) \<and> (of_char c :: nat) \<le> 57"
proof (induction n rule: nat_digits.induct)
  case (1 n)
  then show ?case
    by (cases "n < 10") (auto simp: nat_digits.simps [of n] of_char_digit_char)
qed

lemma nat_digits_ne: "nat_digits n \<noteq> []"
  by (simp add: nat_digits.simps [of n])

text \<open>\<open>%d\<close> prints an integer so that reading the text back gives the integer.\<close>

lemma py_int_of_py_str_int: "py_int_of (py_str_int i) = i"
proof (cases "i < 0")
  case True
  then show ?thesis by (simp add: py_str_int_def py_int_of_def digits_value_nat_digits)
next
  case False
  let ?d = "nat_digits (nat i)"
  have "hd ?d \<in> set ?d" by (simp add: nat_digits_ne)
  then have "48 \<le> (of_char (hd ?d) :: nat)" by (simp add: nat_digits_chars)
  then have "hd ?d \<noteq> CHR ''-''" by auto
  with False show ?thesis by (simp add: py_str_int_def py_int_of_def digits_value_nat_digits)
qed

end
