(* ===== verification/Shell.thy ===== *)
theory Shell
  imports PyStr
begin

text \<open>
  The shell collaborator and \<open>run_command\<close> (\<open>src/docgen.py\<close>, lines 10--17).
  The operating system is abstract: a shell is a function from the state of the
  outside world \<open>'w\<close> and a command line to the process result and the next state
  of the world, so commands may depend on and change the world (files, clocks) and the
  order in which the script runs them is visible.  The script's own standard output is
  the \<open>console\<close> of an \<open>io\<close> record; \<open>print(s)\<close> appends \<open>s\<close> and a newline.

  \<open>subprocess.run(c, shell=True, check=True, capture_output=True, text=True)\<close> is
  modelled from the Python library: the shell reports the return code, the decoded
  standard output and error (\<open>Completed\<close>), or an exception raised while starting the
  process or decoding its output (\<open>Raised\<close>, with its message); text mode translates
  newlines of the captured output; \<open>check=True\<close> raises \<open>CalledProcessError\<close> for a
  non-zero return code, whose message is \<open>CalledProcessError.__str__\<close>.
\<close>

datatype proc_result =
    Completed int string string
  | Raised string

type_synonym 'w shell = "'w \<Rightarrow> string \<Rightarrow> proc_result \<times> 'w"

record 'w io =
  world :: 'w
  console :: string

definition py_print :: "string \<Rightarrow> 'w io \<Rightarrow> 'w io" where
  "py_print s io = io\<lparr>console := console io @ s @ [NL]\<rparr>"

datatype run_exc =
    CalledProcessError int string
  | OtherException string

text \<open>The members of \<open>signal.Signals\<close> on Linux, by number (canonical names).\<close>

definition signal_names :: "(nat \<times> string) list" where
  "signal_names =
     [(1, ''SIGHUP''), (2, ''SIGINT''), (3, ''SIGQUIT''), (4, ''SIGILL''), (5, ''SIGTRAP''),
      (6, ''SIGABRT''), (7, ''SIGBUS''), (8, ''SIGFPE''), (9, ''SIGKILL''), (10, ''SIGUSR1''),
      (11, ''SIGSEGV''), (12, ''SIGUSR2''), (13, ''SIGPIPE''), (14, ''SIGALRM''),
      (15, ''SIGTERM''), (16, ''SIGSTKFLT''), (17, ''SIGCHLD''), (18, ''SIGCONT''),
      (19, ''SIGSTOP''), (20, ''SIGTSTP''), (21, ''SIGTTIN''), (22, ''SIGTTOU''),
      (23, ''SIGURG''), (24, ''SIGXCPU''), (25, ''SIGXFSZ''), (26, ''SIGVTALRM''),
      (27, ''SIGPROF''), (28, ''SIGWINCH''), (29, ''SIGIO''), (30, ''SIGPWR''),
      (31, ''SIGSYS''), (34, ''SIGRTMIN''), (64, ''SIGRTMAX'')]"

definition quoted :: "string \<Rightarrow> string" where
  "quoted s = [CHR 0x27] @ s @ [CHR 0x27]"

definition cpe_str :: "int \<Rightarrow> string \<Rightarrow> string" where
  "cpe_str rc cmd =
     (if rc \<noteq> 0 \<and> rc < 0 then
        (case map_of signal_names (nat (- rc)) of
           Some nm \<Rightarrow> ''Command '' @ quoted cmd @ '' died with <Signals.'' @ nm @ '': ''
                       @ py_str_int (- rc) @ ''>.''
         | None \<Rightarrow> ''Command '' @ quoted cmd @ '' died with unknown signal ''
                    @ py_str_int (- rc) @ ''.'')
      else ''Command '' @ quoted cmd @ '' returned non-zero exit status '' @ py_str_int rc @ ''.'')"

definition subprocess_run :: "'w shell \<Rightarrow> string \<Rightarrow> 'w \<Rightarrow> (run_exc + string) \<times> 'w" where
  "subprocess_run sh c w =
     (case sh w c of
        (Completed rc out err, w') \<Rightarrow>
          (if rc \<noteq> 0 then Inl (CalledProcessError rc c) else Inr (translate_newlines out), w')
      | (Raised m, w') \<Rightarrow> (Inl (OtherException m), w'))"

text \<open>
  The two \<open>except\<close> clauses of \<open>run_command\<close> (lines 14--17) print one line each;
  \<open>run_error_msg c ex\<close> is the line printed for the exception \<open>ex\<close> of command \<open>c\<close>.
  \<open>run_command\<close> returns the captured output, or prints that line and falls off the
  end of the function, returning Python's \<open>None\<close>.
\<close>

fun run_error_msg :: "string \<Rightarrow> run_exc \<Rightarrow> string" where
  "run_error_msg c (CalledProcessError rc cmd) =
     ''Error: shell command, '' @ c @ '', in eval block failed: '' @ cpe_str rc cmd"
| "run_error_msg c (OtherException m) =
     ''Error: executing shell command '' @ c @ '' resulted in in unknown exception '' @ m"

definition run_command :: "'w shell \<Rightarrow> string \<Rightarrow> 'w io \<Rightarrow> string option \<times> 'w io" where
  "run_command sh c io =
     (case subprocess_run sh c (world io) of
        (Inr out, w') \<Rightarrow> (Some out, io\<lparr>world := w'\<rparr>)
      | (Inl ex, w') \<Rightarrow> (None, py_print (run_error_msg c ex) (io\<lparr>world := w'\<rparr>)))"

text \<open>Replacing what a shell writes to standard error, to state that it is never observed.\<close>

fun with_stderr_res :: "(string \<Rightarrow> string) \<Rightarrow> proc_result \<Rightarrow> proc_result" where
  "with_stderr_res f (Completed rc out err) = Completed rc out (f err)"
| "with_stderr_res f (Raised m) = Raised m"

definition with_stderr :: "(string \<Rightarrow> string) \<Rightarrow> 'w shell \<Rightarrow> 'w shell" where
  "with_stderr f sh w c = (case sh w c of (r, w') \<Rightarrow> (with_stderr_res f r, w'))"

lemmas run_command_unfold = run_command_def subprocess_run_def py_print_def run_error_msg.simps

lemma run_command_world: "world (snd (run_command sh c io)) = snd (sh (world io) c)"
  by (auto simp: run_command_unfold split: prod.splits proc_result.splits run_exc.splits sum.splits)

text \<open>
  C14: \<open>run_command\<close> returns text exactly when the shell completed with return code 0,
  and the text is the command's standard output with its newlines translated.
\<close>

theorem run_command_Some_iff:
  "fst (run_command sh c io) = Some out \<longleftrightarrow>
     (\<exists>raw err. fst (sh (world io) c) = Completed 0 raw err \<and> out = translate_newlines raw)"
  by (auto simp: run_command_unfold split: prod.splits proc_result.splits run_exc.splits sum.splits if_splits)

lemma run_command_Some_console:
  "fst (run_command sh c io) = Some out \<Longrightarrow> console (snd (run_command sh c io)) = console io"
  by (auto simp: run_command_unfold split: prod.splits proc_result.splits run_exc.splits sum.splits if_splits)

lemma run_error_msg_prefix: "\<exists>m. run_error_msg c ex = ''Error: '' @ m"
  by (cases ex) simp_all

text \<open>When \<open>run_command\<close> fails it has printed exactly one line, the message of the
  exception \<open>subprocess.run\<close> raised.\<close>

lemma run_command_None_console:
  "fst (run_command sh c io) = None \<Longrightarrow>
   \<exists>ex w'. subprocess_run sh c (world io) = (Inl ex, w') \<and>
     console (snd (run_command sh c io)) = console io @ run_error_msg c ex @ [NL]"
  by (auto simp: run_command_unfold split: prod.splits proc_result.splits sum.splits if_splits)

text \<open>C15: what a command writes to standard error never influences the run.\<close>

theorem run_command_with_stderr: "run_command (with_stderr f sh) c io = run_command sh c io"
  by (auto simp: run_command_unfold with_stderr_def
           split: prod.splits proc_result.splits run_exc.splits sum.splits if_splits)

text \<open>C23: the text \<open>run_command\<close> returns never contains a carriage return.\<close>

theorem run_command_no_CR: "fst (run_command sh c io) = Some out \<Longrightarrow> CR \<notin> set out"
  by (auto simp: run_command_Some_iff translate_newlines_no_CR)

end
