(* ===== verification/Process.thy ===== *)
theory Process
  imports Shell
begin

text \<open>
  The scanner \<open>process(f)\<close> of \<open>src/docgen.py\<close> (lines 19--37).  Its locals
  \<open>output\<close>, \<open>in_eval_blk\<close> and \<open>cmd\<close> are the record \<open>scan\<close> (the field
  \<open>output_buf\<close> is \<open>output\<close>, a keyword of Isabelle); one iteration of
  \<open>for l in f\<close> is \<open>process_line\<close>, whose four branches are the
  \<open>if\<close>/\<open>elif\<close> chain of the loop body in the source's order; the loop is
  \<open>process_lines\<close>, which stops at the first exception, as the Python loop does.
  The statement \<open>output += run_command(l)\<close> (line 31) is \<open>str_iadd\<close>: when
  \<open>run_command\<close> returns \<open>None\<close>, \<open>str + None\<close> raises \<open>TypeError\<close>.
\<close>

record scan =
  output_buf :: string
  in_eval_blk :: bool
  cmd :: string

definition scan_init :: scan where
  "scan_init = \<lparr>output_buf = [], in_eval_blk = False, cmd = []\<rparr>"

definition is_fence_close :: "line \<Rightarrow> bool" where
  "is_fence_close l \<longleftrightarrow> py_strip l = ''```''"

definition is_eval_open :: "line \<Rightarrow> bool" where
  "is_eval_open l \<longleftrightarrow> py_strip l = ''``` eval'' \<or> py_strip l = ''```eval''"

definition annotation :: "string \<Rightarrow> string" where
  "annotation c = ''Autogenerated with command: `'' @ py_strip c @ ''`.'' @ [NL]"

definition none_concat_msg :: string where
  "none_concat_msg = ''can only concatenate str (not \"NoneType\") to str''"

definition str_iadd :: "string \<Rightarrow> string option \<Rightarrow> py_exc + string" where
  "str_iadd s r = (case r of None \<Rightarrow> Inl (TypeError none_concat_msg) | Some t \<Rightarrow> Inr (s @ t))"

definition process_line :: "'w shell \<Rightarrow> scan \<Rightarrow> line \<Rightarrow> 'w io \<Rightarrow> (py_exc + scan) \<times> 'w io" where
  "process_line sh s l io =
     (if in_eval_blk s \<and> is_fence_close l then
        (Inr (s\<lparr>output_buf := output_buf s @ l @ annotation (cmd s), cmd := [], in_eval_blk := False\<rparr>), io)
      else if in_eval_blk s then
        (let s' = s\<lparr>cmd := cmd s @ l\<rparr> in
         case run_command sh l io of
           (r, io') \<Rightarrow>
             (case str_iadd (output_buf s') r of
                Inl e \<Rightarrow> (Inl e, io')
              | Inr out \<Rightarrow> (Inr (s'\<lparr>output_buf := out\<rparr>), io')))
      else if \<not> in_eval_blk s \<and> is_eval_open l then
        (Inr (s\<lparr>in_eval_blk := True, output_buf := output_buf s @ ''```sh'' @ [NL]\<rparr>), io)
      else (Inr (s\<lparr>output_buf := output_buf s @ l\<rparr>), io))"

fun process_lines :: "'w shell \<Rightarrow> scan \<Rightarrow> line list \<Rightarrow> 'w io \<Rightarrow> (py_exc + scan) \<times> 'w io" where
  "process_lines sh s [] io = (Inr s, io)"
| "process_lines sh s (l # ls) io =
     (case process_line sh s l io of
        (Inl e, io') \<Rightarrow> (Inl e, io')
      | (Inr s', io') \<Rightarrow> process_lines sh s' ls io')"

definition process :: "'w shell \<Rightarrow> line list \<Rightarrow> 'w io \<Rightarrow> (py_exc + string) \<times> 'w io" where
  "process sh f io =
     (case process_lines sh scan_init f io of
        (Inl e, io') \<Rightarrow> (Inl e, io')
      | (Inr s, io') \<Rightarrow> (Inr (output_buf s), io'))"

subsection \<open>The four branches of one iteration\<close>

lemma process_line_close [scan_simps]:
  "in_eval_blk s \<Longrightarrow> is_fence_close l \<Longrightarrow>
   process_line sh s l io =
     (Inr (s\<lparr>output_buf := output_buf s @ l @ annotation (cmd s), cmd := [], in_eval_blk := False\<rparr>), io)"
  by (simp add: process_line_def)

lemma process_line_command [scan_simps]:
  "in_eval_blk s \<Longrightarrow> \<not> is_fence_close l \<Longrightarrow>
   process_line sh s l io =
     (case fst (run_command sh l io) of
        None \<Rightarrow> (Inl (TypeError none_concat_msg), snd (run_command sh l io))
      | Some out \<Rightarrow> (Inr (s\<lparr>cmd := cmd s @ l, output_buf := output_buf s @ out\<rparr>), snd (run_command sh l io)))"
  by (cases "run_command sh l io") (simp add: process_line_def str_iadd_def Let_def split: option.splits)

lemma process_line_open [scan_simps]:
  "\<not> in_eval_blk s \<Longrightarrow> is_eval_open l \<Longrightarrow>
   process_line sh s l io = (Inr (s\<lparr>in_eval_blk := True, output_buf := output_buf s @ ''```sh'' @ [NL]\<rparr>), io)"
  by (simp add: process_line_def)

lemma process_line_pass [scan_simps]:
  "\<not> in_eval_blk s \<Longrightarrow> \<not> is_eval_open l \<Longrightarrow>
   process_line sh s l io = (Inr (s\<lparr>output_buf := output_buf s @ l\<rparr>), io)"
  by (simp add: process_line_def)

subsection \<open>The loop\<close>

lemma process_lines_append:
  "process_lines sh s (xs @ ys) io =
     (case process_lines sh s xs io of
        (Inl e, io') \<Rightarrow> (Inl e, io')
      | (Inr s', io') \<Rightarrow> process_lines sh s' ys io')"
  by (induction xs arbitrary: s io) (auto split: prod.splits sum.splits)

lemma process_lines_Inl_append:
  "process_lines sh s xs io = (Inl e, io') \<Longrightarrow> process_lines sh s (xs @ ys) io = (Inl e, io')"
  by (simp add: process_lines_append)

lemma process_lines_Inr_append:
  "process_lines sh s xs io = (Inr s', io') \<Longrightarrow>
   process_lines sh s (xs @ ys) io = process_lines sh s' ys io'"
  by (simp add: process_lines_append)

lemma eval_open_not_close: "is_eval_open l \<Longrightarrow> \<not> is_fence_close l"
  by (auto simp: is_eval_open_def is_fence_close_def)

declare is_eval_open_def [docgen_simps] is_fence_close_def [docgen_simps]
  py_strip_def [docgen_simps] py_lstrip_def [docgen_simps] py_rstrip_def [docgen_simps]
  py_isspace_def [docgen_simps] annotation_def [docgen_simps] scan_init_def [docgen_simps]

subsection \<open>Which lines are markers\<close>

lemma ends_nonspace_fence: "\<not> py_isspace (hd ''```'') \<and> \<not> py_isspace (last ''```'')"
  by (simp add: py_isspace_def)

text \<open>
  C21: a line closes a block exactly when it is three backticks with only whitespace
  (the line's newline included) around them.
\<close>

theorem is_fence_close_iff:
  "is_fence_close l \<longleftrightarrow>
   (\<exists>a b. l = a @ ''```'' @ b \<and> (\<forall>c\<in>set a. py_isspace c) \<and> (\<forall>c\<in>set b. py_isspace c))"
  using py_strip_spec [of l "''```''"] ends_nonspace_fence by (simp add: is_fence_close_def)

text \<open>
  C22: a line opens a block exactly when it is \<open>``` eval\<close> or \<open>```eval\<close> with only
  whitespace around it.
\<close>

theorem is_eval_open_iff:
  "is_eval_open l \<longleftrightarrow>
   (\<exists>a m b. (m = ''``` eval'' \<or> m = ''```eval'') \<and> l = a @ m @ b \<and>
      (\<forall>c\<in>set a. py_isspace c) \<and> (\<forall>c\<in>set b. py_isspace c))"
proof -
  have e1: "\<not> py_isspace (hd ''``` eval'') \<and> \<not> py_isspace (last ''``` eval'')"
    and e2: "\<not> py_isspace (hd ''```eval'') \<and> \<not> py_isspace (last ''```eval'')"
    by (simp_all add: py_isspace_def)
  have A: "py_strip l = ''``` eval'' \<longleftrightarrow>
      (\<exists>a b. l = a @ ''``` eval'' @ b \<and> (\<forall>c\<in>set a. py_isspace c) \<and> (\<forall>c\<in>set b. py_isspace c))"
    using py_strip_spec [of l "''``` eval''"] e1 by simp
  have B: "py_strip l = ''```eval'' \<longleftrightarrow>
      (\<exists>a b. l = a @ ''```eval'' @ b \<and> (\<forall>c\<in>set a. py_isspace c) \<and> (\<forall>c\<in>set b. py_isspace c))"
    using py_strip_spec [of l "''```eval''"] e2 by simp
  show ?thesis unfolding is_eval_open_def A B by blast
qed

subsection \<open>Invariants of the loop\<close>

text \<open>
  Outside a block the accumulated command text is empty; the output buffer and the
  console only grow.
\<close>

definition scan_inv :: "scan \<Rightarrow> bool" where
  "scan_inv s \<longleftrightarrow> (\<not> in_eval_blk s \<longrightarrow> cmd s = [])"

lemma scan_inv_init: "scan_inv scan_init"
  by (simp add: scan_inv_def scan_init_def)

lemma process_line_cases:
  obtains (Close) "in_eval_blk s" "is_fence_close l"
  | (Command) "in_eval_blk s" "\<not> is_fence_close l"
  | (Open) "\<not> in_eval_blk s" "is_eval_open l"
  | (Pass) "\<not> in_eval_blk s" "\<not> is_eval_open l"
  by blast

lemma process_line_inv:
  "process_line sh s l io = (Inr s', io') \<Longrightarrow> scan_inv s \<Longrightarrow> scan_inv s'"
  by (cases s l rule: process_line_cases)
     (auto simp: scan_simps scan_inv_def split: option.splits)

lemma process_lines_inv:
  "process_lines sh s ls io = (Inr s', io') \<Longrightarrow> scan_inv s \<Longrightarrow> scan_inv s'"
proof (induction ls arbitrary: s io)
  case (Cons l ls)
  then show ?case
    by (auto split: prod.splits sum.splits dest: process_line_inv)
qed simp

lemma process_line_output_grows:
  "process_line sh s l io = (Inr s', io') \<Longrightarrow> \<exists>d. output_buf s' = output_buf s @ d"
  by (cases s l rule: process_line_cases) (auto simp: scan_simps split: option.splits)

lemma process_line_console_grows:
  "process_line sh s l io = (r, io') \<Longrightarrow> \<exists>d. console io' = console io @ d"
  by (cases s l rule: process_line_cases)
     (auto simp: scan_simps split: option.splits
           dest: run_command_Some_console run_command_None_console)

lemma process_lines_console_grows:
  "process_lines sh s ls io = (r, io') \<Longrightarrow> \<exists>d. console io' = console io @ d"
proof (induction ls arbitrary: s io)
  case (Cons l ls)
  then show ?case
    by (fastforce split: prod.splits sum.splits dest: process_line_console_grows)
qed simp

subsection \<open>Documents without eval blocks\<close>

lemma process_lines_passthrough:
  "\<not> in_eval_blk s \<Longrightarrow> \<forall>l\<in>set ls. \<not> is_eval_open l \<Longrightarrow>
   process_lines sh s ls io = (Inr (s\<lparr>output_buf := output_buf s @ concat ls\<rparr>), io)"
  by (induction ls arbitrary: s) (simp_all add: scan_simps)

text \<open>C1: a document with no opening marker is returned unchanged and runs no command.\<close>

theorem process_passthrough:
  "\<forall>l\<in>set ls. \<not> is_eval_open l \<Longrightarrow> process sh ls io = (Inr (concat ls), io)"
  by (simp add: process_def process_lines_passthrough scan_init_def)

subsection \<open>A failing command aborts the scan\<close>

text \<open>
  C3: when a command inside a block fails, \<open>run_command\<close> returns \<open>None\<close> and the
  statement \<open>output += run_command(l)\<close> raises \<open>TypeError\<close>: \<open>process\<close> stops
  there, whatever follows in the document, with the world and console as the failed
  command left them.
\<close>

theorem process_command_failure_aborts:
  assumes pre: "process_lines sh scan_init xs io = (Inr s, io1)"
    and blk: "in_eval_blk s" and cl: "\<not> is_fence_close l"
    and fail: "fst (run_command sh l io1) = None"
  shows "process sh (xs @ l # ys) io = (Inl (TypeError none_concat_msg), snd (run_command sh l io1))"
proof -
  have "process_line sh s l io1 = (Inl (TypeError none_concat_msg), snd (run_command sh l io1))"
    using blk cl fail by (simp add: scan_simps)
  then show ?thesis using pre by (simp add: process_def process_lines_append)
qed

subsection \<open>The two spellings of the opening marker\<close>

text \<open>
  C7: at the first opening marker of a document, the spellings \<open>``` eval\<close> and
  \<open>```eval\<close> (with any surrounding whitespace) give the same run.
\<close>

theorem process_open_spelling:
  assumes none: "\<forall>x\<in>set xs. \<not> is_eval_open x"
    and a: "py_strip a = ''``` eval''" and b: "py_strip b = ''```eval''"
  shows "process sh (xs @ a # ys) io = process sh (xs @ b # ys) io"
proof -
  let ?s = "scan_init\<lparr>output_buf := concat xs\<rparr>"
  have pre: "process_lines sh scan_init xs io = (Inr ?s, io)"
    using none by (simp add: process_lines_passthrough scan_init_def)
  have "is_eval_open a" "is_eval_open b" using a b by (simp_all add: is_eval_open_def)
  then have "process_line sh ?s a io = process_line sh ?s b io"
    by (simp add: scan_simps scan_init_def)
  then show ?thesis using pre by (simp add: process_def process_lines_append)
qed

subsection \<open>What the scan prints\<close>

lemma process_line_console:
  "process_line sh s l io = (r, io') \<Longrightarrow>
   (case r of Inr _ \<Rightarrow> console io' = console io
    | Inl _ \<Rightarrow> \<exists>ex w'. subprocess_run sh l (world io) = (Inl ex, w') \<and>
                 console io' = console io @ run_error_msg l ex @ [NL])"
  by (cases s l rule: process_line_cases)
     (auto simp: scan_simps split: option.splits
           dest: run_command_Some_console run_command_None_console)

lemma process_lines_console:
  "process_lines sh s ls io = (r, io') \<Longrightarrow>
   (case r of Inr _ \<Rightarrow> console io' = console io
    | Inl _ \<Rightarrow> \<exists>l ex w w'. l \<in> set ls \<and> subprocess_run sh l w = (Inl ex, w') \<and>
                 console io' = console io @ run_error_msg l ex @ [NL])"
proof (induction ls arbitrary: s io)
  case (Cons l ls)
  obtain r1 io1 where p: "process_line sh s l io = (r1, io1)" by fastforce
  note c1 = process_line_console [OF p]
  show ?case
  proof (cases r1)
    case (Inl e)
    with Cons.prems p c1 show ?thesis by fastforce
  next
    case (Inr s1)
    with Cons.prems p have "process_lines sh s1 ls io1 = (r, io')" by simp
    with Cons.IH [of s1 io1] c1 Inr show ?thesis by (fastforce split: sum.splits)
  qed
qed auto

text \<open>
  C13: \<open>process\<close> prints nothing when it returns; when it raises, it has printed exactly
  one line: the message \<open>run_command\<close> prints for a line of the document whose
  command raised an exception in \<open>subprocess.run\<close>.
\<close>

theorem process_console:
  "process sh ls io = (r, io') \<Longrightarrow>
   (case r of Inr _ \<Rightarrow> console io' = console io
    | Inl _ \<Rightarrow> \<exists>l ex w w'. l \<in> set ls \<and> subprocess_run sh l w = (Inl ex, w') \<and>
                 console io' = console io @ run_error_msg l ex @ [NL])"
  using process_lines_console [of sh scan_init ls io]
  by (auto simp: process_def split: prod.splits sum.splits)

subsection \<open>An opening marker inside a block\<close>

text \<open>
  C25: there are no nested blocks: inside a block, a line reading \<open>``` eval\<close> or
  \<open>```eval\<close> is a command line like any other: it is handed to the shell, and when the
  shell's result is text the scan stays inside the block with the line added to the
  command text.
\<close>

theorem process_line_nested_open:
  assumes "in_eval_blk s" "is_eval_open l" "process_line sh s l io = (r, io')"
  shows "world io' = snd (sh (world io) l) \<and>
    (case r of Inr s' \<Rightarrow> in_eval_blk s' \<and> cmd s' = cmd s @ l | Inl _ \<Rightarrow> True)"
  using assms eval_open_not_close [OF assms(2)] run_command_world [of sh l io]
  by (auto simp: scan_simps split: option.splits)

subsection \<open>The scan returns when every command succeeds\<close>

lemma process_line_returns:
  assumes "\<forall>w c. \<exists>raw err. fst (sh w c) = Completed 0 raw err"
  shows "\<exists>s' io'. process_line sh s l io = (Inr s', io')"
proof (cases s l rule: process_line_cases)
  case Command
  obtain raw err where "fst (sh (world io) l) = Completed 0 raw err" using assms by blast
  then have "fst (run_command sh l io) = Some (translate_newlines raw)"
    using run_command_Some_iff by blast
  with Command show ?thesis by (simp add: scan_simps)
qed (simp_all add: scan_simps)

text \<open>
  C26: the loop of \<open>process\<close> ends with a text for every document when every command
  the shell is given completes with return code 0: the only exception the loop raises
  comes from a failed command.
\<close>

theorem process_returns:
  assumes "\<forall>w c. \<exists>raw err. fst (sh w c) = Completed 0 raw err"
  shows "\<exists>out io'. process sh ls io = (Inr out, io')"
proof -
  have "\<exists>s' io'. process_lines sh s ls io = (Inr s', io')" for s
  proof (induction ls arbitrary: s io)
    case (Cons l ls)
    obtain s1 io1 where "process_line sh s l io = (Inr s1, io1)"
      using process_line_returns [OF assms] by blast
    with Cons.IH [of s1 io1] show ?case by simp
  qed simp
  then obtain s' io' where "process_lines sh scan_init ls io = (Inr s', io')" by blast
  then show ?thesis by (simp add: process_def)
qed

end
