(* ===== verification/Scanner.thy ===== *)
theory Scanner
  imports Process
begin

text \<open>
  The scanner of \<open>process\<close> as the specification describes it: a machine with two
  modes (outside a block, inside an eval block) and the accumulated command text,
  driven by one line at a time.  \<open>scan_step\<close> has one rule per branch of the loop
  body; \<open>scan_run ls m\<close> says that the lines \<open>ls\<close> lead from the initial state
  (outside, no command text) to \<open>m\<close>.  The invariants are proved by rule induction
  over runs, and \<open>process_line\<close> is shown to simulate the machine, so they hold of
  every state the code reaches.
\<close>

type_synonym mode = "bool \<times> string"

inductive scan_step :: "mode \<Rightarrow> line \<Rightarrow> mode \<Rightarrow> bool" where
  step_open: "is_eval_open l \<Longrightarrow> scan_step (False, c) l (True, c)"
| step_text: "\<not> is_eval_open l \<Longrightarrow> scan_step (False, c) l (False, c)"
| step_close: "is_fence_close l \<Longrightarrow> scan_step (True, c) l (False, [])"
| step_cmd: "\<not> is_fence_close l \<Longrightarrow> scan_step (True, c) l (True, c @ l)"

inductive_cases scan_step_outsideE: "scan_step (False, c) l m"
inductive_cases scan_step_insideE: "scan_step (True, c) l m"

inductive scan_run :: "line list \<Rightarrow> mode \<Rightarrow> bool" where
  run_nil: "scan_run [] (False, [])"
| run_snoc: "scan_run ls m \<Longrightarrow> scan_step m l m' \<Longrightarrow> scan_run (ls @ [l]) m'"

subsection \<open>The machine is deterministic and total\<close>

lemma scan_step_det: "scan_step m l m1 \<Longrightarrow> scan_step m l m2 \<Longrightarrow> m1 = m2"
  by (auto elim!: scan_step.cases)

lemma scan_step_total: "\<exists>m'. scan_step m l m'"
proof (cases m)
  case (Pair b c)
  then show ?thesis
    by (cases b; cases "is_eval_open l"; cases "is_fence_close l") (auto intro: scan_step.intros)
qed

lemma scan_run_det: "scan_run ls m1 \<Longrightarrow> scan_run ls m2 \<Longrightarrow> m1 = m2"
proof (induction arbitrary: m2 rule: scan_run.induct)
  case run_nil
  then show ?case by (cases rule: scan_run.cases) auto
next
  case (run_snoc ls m l m')
  from run_snoc.prems obtain m0 where "scan_run ls m0" "scan_step m0 l m2"
    by (cases rule: scan_run.cases) auto
  with run_snoc show ?case by (metis scan_step_det)
qed

subsection \<open>Invariant of the runs\<close>

text \<open>
  Outside a block the command text is empty.  Inside, the lines read so far split
  into a prefix that ends outside any block, the opening marker of the current block,
  and the lines read since, none of which closed it; the command text is their
  concatenation.
\<close>

definition run_inv :: "line list \<Rightarrow> mode \<Rightarrow> bool" where
  "run_inv ls m \<longleftrightarrow>
     (if fst m
      then \<exists>pre opn body. ls = pre @ opn # body \<and> scan_run pre (False, []) \<and> is_eval_open opn \<and>
             (\<forall>x\<in>set body. \<not> is_fence_close x) \<and> snd m = concat body
      else snd m = [])"

lemma scan_step_run_inv:
  assumes run: "scan_run ls m" and inv: "run_inv ls m" and st: "scan_step m l m'"
  shows "run_inv (ls @ [l]) m'"
  using st
proof cases
  case (step_open c)
  with inv have "c = []" by (simp add: run_inv_def)
  with run step_open have "ls @ [l] = ls @ l # [] \<and> scan_run ls (False, []) \<and> is_eval_open l \<and>
      (\<forall>x\<in>set []. \<not> is_fence_close x) \<and> c = concat []"
    by simp
  with step_open show ?thesis unfolding run_inv_def by fastforce
next
  case (step_cmd c)
  then obtain pre opn body where "ls = pre @ opn # body" "scan_run pre (False, [])"
      "is_eval_open opn" "\<forall>x\<in>set body. \<not> is_fence_close x" "c = concat body"
    using inv by (auto simp: run_inv_def)
  with step_cmd have "ls @ [l] = pre @ opn # (body @ [l]) \<and> scan_run pre (False, []) \<and>
      is_eval_open opn \<and> (\<forall>x\<in>set (body @ [l]). \<not> is_fence_close x) \<and> c @ l = concat (body @ [l])"
    by simp
  with step_cmd show ?thesis unfolding run_inv_def by fastforce
qed (use inv in \<open>auto simp: run_inv_def\<close>)

lemma scan_run_inv: "scan_run ls m \<Longrightarrow> run_inv ls m"
proof (induction rule: scan_run.induct)
  case run_nil
  then show ?case by (simp add: run_inv_def)
next
  case (run_snoc ls m l m')
  then show ?case by (blast intro: scan_step_run_inv)
qed

text \<open>C5: outside an eval block the accumulated command text is empty.\<close>

theorem scan_run_outside_cmd_empty: "scan_run ls (False, c) \<Longrightarrow> c = []"
  using scan_run_inv [of ls "(False, c)"] by (simp add: run_inv_def)

text \<open>
  C6: inside an eval block the accumulated command text is exactly the concatenation
  of the lines read since the marker that opened the block.
\<close>

theorem scan_run_inside_cmd:
  "scan_run ls (True, c) \<Longrightarrow>
   \<exists>pre opn body. ls = pre @ opn # body \<and> scan_run pre (False, []) \<and> is_eval_open opn \<and>
     (\<forall>x\<in>set body. \<not> is_fence_close x) \<and> c = concat body"
  using scan_run_inv [of ls "(True, c)"] by (simp add: run_inv_def)

text \<open>
  C12: for lines as a text file yields them (never empty), the command text inside a
  block is empty exactly when the line just read is the marker that opened the block.
\<close>

theorem scan_run_cmd_empty_iff:
  assumes run: "scan_run ls (True, c)" and ne: "\<forall>l\<in>set ls. l \<noteq> []"
  shows "c = [] \<longleftrightarrow> (\<exists>pre opn. ls = pre @ [opn] \<and> scan_run pre (False, []) \<and> is_eval_open opn)"
proof
  assume "c = []"
  from run obtain pre opn body where d: "ls = pre @ opn # body" "scan_run pre (False, [])"
      "is_eval_open opn" "c = concat body"
    using scan_run_inv [of ls "(True, c)"] by (auto simp: run_inv_def)
  with ne \<open>c = []\<close> have "body = []" by auto
  with d show "\<exists>pre opn. ls = pre @ [opn] \<and> scan_run pre (False, []) \<and> is_eval_open opn"
    by blast
next
  assume "\<exists>pre opn. ls = pre @ [opn] \<and> scan_run pre (False, []) \<and> is_eval_open opn"
  then have "scan_run ls (True, [])" by (metis run_snoc step_open)
  with run show "c = []" using scan_run_det by blast
qed

subsection \<open>The code simulates the machine\<close>

lemma process_line_scan_step:
  "process_line sh s l io = (Inr s', io') \<Longrightarrow> scan_step (in_eval_blk s, cmd s) l (in_eval_blk s', cmd s')"
  by (cases s l rule: process_line_cases)
     (auto simp: scan_simps intro: scan_step.intros split: option.splits)

lemma process_lines_scan_run:
  "scan_run pre (in_eval_blk s, cmd s) \<Longrightarrow> process_lines sh s ls io = (Inr s', io') \<Longrightarrow>
   scan_run (pre @ ls) (in_eval_blk s', cmd s')"
proof (induction ls arbitrary: pre s io)
  case (Cons l ls)
  obtain r io1 where p: "process_line sh s l io = (r, io1)" by fastforce
  show ?case
  proof (cases r)
    case (Inl e)
    with Cons.prems p show ?thesis by simp
  next
    case (Inr s1)
    with p have "scan_step (in_eval_blk s, cmd s) l (in_eval_blk s1, cmd s1)"
      by (simp add: process_line_scan_step)
    with Cons.prems(1) have "scan_run (pre @ [l]) (in_eval_blk s1, cmd s1)"
      by (rule run_snoc)
    moreover from Cons.prems(2) p Inr have "process_lines sh s1 ls io1 = (Inr s', io')" by simp
    ultimately show ?thesis using Cons.IH by fastforce
  qed
qed simp

text \<open>
  C11: every state the code's loop reaches without an exception is reachable in the
  machine, so the invariants above hold of the locals of \<open>process\<close>.
\<close>

theorem process_scan_run:
  "process_lines sh scan_init ls io = (Inr s, io') \<Longrightarrow> scan_run ls (in_eval_blk s, cmd s)"
  using process_lines_scan_run [of "[]" scan_init sh ls io s io'] run_nil
  by (simp add: scan_init_def)

end
