(* ===== verification/Blocks.thy ===== *)
theory Blocks
  imports Process
begin

text \<open>
  The specification's view of a document (spec sections 4.1 and 6): a sequence of
  plain lines and eval blocks, each block an opening marker, its command lines and
  its closing fence if the document has one.  \<open>parse_doc\<close> cuts a line list into
  segments.  \<open>transform_spec\<close> is the block-level
  transformation the specification promises: a plain line is copied; a block becomes
  a \<open>```sh\<close> fence, the standard output of each command line run on its own and in
  order, and, when the block is closed, the closing line and the annotation; a failing
  command contributes no text and the document goes on (failure isolation).  The
  flag returned with the text says whether some command failed.
\<close>

datatype segment =
    Plain line
  | Block line "line list" "line option"

lemma dropWhile_Cons_shorter: "dropWhile P xs = y # ys \<Longrightarrow> length ys < Suc (length xs)"
  using length_dropWhile_le [of P xs] by simp

function parse_doc :: "line list \<Rightarrow> segment list" where
  "parse_doc [] = []"
| "parse_doc (l # ls) =
     (if is_eval_open l then
        (case dropWhile (\<lambda>x. \<not> is_fence_close x) ls of
           [] \<Rightarrow> [Block l ls None]
         | c # rest \<Rightarrow> Block l (takeWhile (\<lambda>x. \<not> is_fence_close x) ls) (Some c) # parse_doc rest)
      else Plain l # parse_doc ls)"
  by pat_completeness auto
termination
  by (relation "measure length") (auto dest: dropWhile_Cons_shorter)

fun run_cmds :: "'w shell \<Rightarrow> line list \<Rightarrow> 'w io \<Rightarrow> string option list \<times> 'w io" where
  "run_cmds sh [] io = ([], io)"
| "run_cmds sh (c # cs) io =
     (case run_command sh c io of (r, io1) \<Rightarrow>
        (case run_cmds sh cs io1 of (rs, io2) \<Rightarrow> (r # rs, io2)))"

definition outputs_text :: "string option list \<Rightarrow> string" where
  "outputs_text rs = concat (map (\<lambda>r. case r of None \<Rightarrow> [] | Some t \<Rightarrow> t) rs)"

fun render_seg :: "'w shell \<Rightarrow> segment \<Rightarrow> 'w io \<Rightarrow> (string \<times> bool) \<times> 'w io" where
  "render_seg sh (Plain l) io = ((l, False), io)"
| "render_seg sh (Block opn body close) io =
     (case run_cmds sh body io of (rs, io') \<Rightarrow>
        ((''```sh'' @ [NL] @ outputs_text rs
            @ (case close of None \<Rightarrow> [] | Some c \<Rightarrow> c @ annotation (concat body)),
          None \<in> set rs), io'))"

fun render_doc :: "'w shell \<Rightarrow> segment list \<Rightarrow> 'w io \<Rightarrow> (string \<times> bool) \<times> 'w io" where
  "render_doc sh [] io = (([], False), io)"
| "render_doc sh (g # gs) io =
     (case render_seg sh g io of ((t, f), io1) \<Rightarrow>
        (case render_doc sh gs io1 of ((u, f'), io2) \<Rightarrow> ((t @ u, f \<or> f'), io2)))"

definition transform_spec :: "'w shell \<Rightarrow> line list \<Rightarrow> 'w io \<Rightarrow> (string \<times> bool) \<times> 'w io" where
  "transform_spec sh ls io = render_doc sh (parse_doc ls) io"

subsection \<open>Parsing and unparsing\<close>

lemma parse_doc_plain [simp]: "\<not> is_eval_open l \<Longrightarrow> parse_doc (l # ls) = Plain l # parse_doc ls"
  by simp

lemma parse_doc_unclosed [simp]:
  assumes "is_eval_open l" and "\<forall>x\<in>set ls. \<not> is_fence_close x"
  shows "parse_doc (l # ls) = [Block l ls None]"
proof -
  have d: "dropWhile (\<lambda>x. \<not> is_fence_close x) ls = []" using assms(2) by simp
  show ?thesis by (simp only: parse_doc.simps(2) d assms(1) if_True list.case(1))
qed

lemma parse_doc_closed [simp]:
  "is_eval_open l \<Longrightarrow> \<forall>x\<in>set body. \<not> is_fence_close x \<Longrightarrow> is_fence_close c \<Longrightarrow>
   parse_doc (l # body @ c # rest) = Block l body (Some c) # parse_doc rest"
  by (simp add: dropWhile_append2)

declare parse_doc.simps(2) [simp del]

text \<open>After an opening marker, the rest of the document is either all inside the block,
  or the block's lines, a closing fence and the rest.\<close>

lemma block_split:
  obtains (unclosed) "\<forall>x\<in>set ls. \<not> is_fence_close x"
  | (closed) body c rest where "ls = body @ c # rest" "\<forall>x\<in>set body. \<not> is_fence_close x"
      "is_fence_close c"
proof (cases "dropWhile (\<lambda>x. \<not> is_fence_close x) ls")
  case Nil
  then show ?thesis using unclosed by simp
next
  case (Cons c rest)
  have "ls = takeWhile (\<lambda>x. \<not> is_fence_close x) ls @ c # rest"
    using Cons takeWhile_dropWhile_id [of "\<lambda>x. \<not> is_fence_close x" ls] by simp
  moreover have "is_fence_close c" using dropWhile_Cons_not [OF Cons] by simp
  ultimately show ?thesis using closed by (metis set_takeWhileD)
qed

subsection \<open>The code on one block\<close>

lemma run_cmds_Cons_elim:
  assumes "run_cmds sh (c # cs) io = (rs, io')"
  obtains r io1 rs' where "run_command sh c io = (r, io1)" "run_cmds sh cs io1 = (rs', io')"
    "rs = r # rs'"
  using assms by (auto split: prod.splits)

lemma process_lines_body_ok:
  "in_eval_blk s \<Longrightarrow> \<forall>x\<in>set body. \<not> is_fence_close x \<Longrightarrow> run_cmds sh body io = (rs, io') \<Longrightarrow>
   None \<notin> set rs \<Longrightarrow>
   process_lines sh s body io =
     (Inr (s\<lparr>cmd := cmd s @ concat body, output_buf := output_buf s @ outputs_text rs\<rparr>), io')"
proof (induction body arbitrary: s io rs)
  case Nil
  then show ?case by (simp add: outputs_text_def)
next
  case (Cons c cs)
  from Cons.prems(3) obtain r io1 rs' where rc: "run_command sh c io = (r, io1)"
      and rest: "run_cmds sh cs io1 = (rs', io')" and rs: "rs = r # rs'"
    by (rule run_cmds_Cons_elim)
  with Cons.prems(4) obtain out where r: "r = Some out" by (cases r) auto
  let ?s1 = "s\<lparr>cmd := cmd s @ c, output_buf := output_buf s @ out\<rparr>"
  have step: "process_line sh s c io = (Inr ?s1, io1)"
    using Cons.prems(1,2) rc r by (simp add: scan_simps)
  have "process_lines sh ?s1 cs io1 =
      (Inr (?s1\<lparr>cmd := cmd ?s1 @ concat cs, output_buf := output_buf ?s1 @ outputs_text rs'\<rparr>), io')"
    using Cons.IH [of ?s1 io1 rs'] Cons.prems(1,2,4) rest rs by simp
  then show ?case using step rs r by (simp add: outputs_text_def)
qed

lemma process_lines_body_fail:
  "in_eval_blk s \<Longrightarrow> \<forall>x\<in>set body. \<not> is_fence_close x \<Longrightarrow> run_cmds sh body io = (rs, io') \<Longrightarrow>
   None \<in> set rs \<Longrightarrow> \<exists>io''. process_lines sh s body io = (Inl (TypeError none_concat_msg), io'')"
proof (induction body arbitrary: s io rs)
  case Nil
  then show ?case by simp
next
  case (Cons c cs)
  from Cons.prems(3) obtain r io1 rs' where rc: "run_command sh c io = (r, io1)"
      and rest: "run_cmds sh cs io1 = (rs', io')" and rs: "rs = r # rs'"
    by (rule run_cmds_Cons_elim)
  show ?case
  proof (cases r)
    case None
    then show ?thesis using Cons.prems(1,2) rc by (simp add: scan_simps)
  next
    case (Some out)
    let ?s1 = "s\<lparr>cmd := cmd s @ c, output_buf := output_buf s @ out\<rparr>"
    have "process_line sh s c io = (Inr ?s1, io1)"
      using Cons.prems(1,2) rc Some by (simp add: scan_simps)
    moreover have "\<exists>io''. process_lines sh ?s1 cs io1 = (Inl (TypeError none_concat_msg), io'')"
      using Cons.IH [of ?s1 io1 rs'] Cons.prems(1,2,4) rest rs Some by simp
    ultimately show ?thesis by simp
  qed
qed

lemma process_lines_unclosed_block:
  "\<not> in_eval_blk s \<Longrightarrow> is_eval_open l \<Longrightarrow> \<forall>x\<in>set body. \<not> is_fence_close x \<Longrightarrow>
   run_cmds sh body io = (rs, io1) \<Longrightarrow> None \<notin> set rs \<Longrightarrow>
   process_lines sh s (l # body) io =
     (Inr (s\<lparr>output_buf := output_buf s @ ''```sh'' @ [NL] @ outputs_text rs, in_eval_blk := True,
             cmd := cmd s @ concat body\<rparr>), io1)"
  by (simp add: scan_simps process_lines_body_ok)

lemma process_lines_closed_block:
  assumes "\<not> in_eval_blk s" "cmd s = []" "is_eval_open l" "\<forall>x\<in>set body. \<not> is_fence_close x"
    "is_fence_close c" "run_cmds sh body io = (rs, io1)" "None \<notin> set rs"
  shows "process_lines sh s (l # body @ c # rest) io =
     process_lines sh (s\<lparr>output_buf := output_buf s @ ''```sh'' @ [NL] @ outputs_text rs
                                        @ c @ annotation (concat body)\<rparr>) rest io1"
proof -
  have "process_lines sh s (l # body) io =
     (Inr (s\<lparr>output_buf := output_buf s @ ''```sh'' @ [NL] @ outputs_text rs, in_eval_blk := True,
             cmd := concat body\<rparr>), io1)"
    using assms process_lines_unclosed_block [of s l body sh io rs io1] by simp
  moreover have "\<And>x. s\<lparr>output_buf := x, cmd := [], in_eval_blk := False\<rparr> = s\<lparr>output_buf := x\<rparr>"
    using assms(1,2) by (cases s) simp
  ultimately show ?thesis
    using assms(5) process_lines_append [of sh s "l # body" "c # rest" io] by (simp add: scan_simps)
qed

subsection \<open>The code refines the block-level transformation\<close>

lemma process_lines_render:
  "\<not> in_eval_blk s \<Longrightarrow> cmd s = [] \<Longrightarrow> render_doc sh (parse_doc ls) io = ((t, False), io') \<Longrightarrow>
   \<exists>s'. process_lines sh s ls io = (Inr s', io') \<and> output_buf s' = output_buf s @ t"
proof (induction ls arbitrary: s io t rule: parse_doc.induct)
  case (2 l ls)
  show ?case
  proof (cases "is_eval_open l")
    case False
    from "2.prems"(3) False obtain u where rest: "render_doc sh (parse_doc ls) io = ((u, False), io')"
        and t: "t = l @ u"
      by (auto split: prod.splits)
    let ?s1 = "s\<lparr>output_buf := output_buf s @ l\<rparr>"
    have "process_line sh s l io = (Inr ?s1, io)" using "2.prems"(1) False by (simp add: scan_simps)
    moreover obtain s' where "process_lines sh ?s1 ls io = (Inr s', io')" "output_buf s' = output_buf ?s1 @ u"
      using "2.IH"(2) [OF False, of ?s1 io u] "2.prems"(1,2) rest by auto
    ultimately show ?thesis using t by auto
  next
    case True
    show ?thesis
    proof (cases ls rule: block_split)
      case unclosed
      with "2.prems"(3) True obtain rs where rc: "run_cmds sh ls io = (rs, io')" and ok: "None \<notin> set rs"
          and t: "t = ''```sh'' @ [NL] @ outputs_text rs"
        by (auto split: prod.splits)
      show ?thesis
        using process_lines_unclosed_block [OF "2.prems"(1) True unclosed rc ok] t by simp
    next
      case (closed body c rest)
      have d: "dropWhile (\<lambda>x. \<not> is_fence_close x) ls = c # rest"
        using closed by (simp add: dropWhile_append2)
      from "2.prems"(3) True closed obtain rs io1 u where rc: "run_cmds sh body io = (rs, io1)"
          and ok: "None \<notin> set rs" and rest: "render_doc sh (parse_doc rest) io1 = ((u, False), io')"
          and t: "t = (''```sh'' @ [NL] @ outputs_text rs @ c @ annotation (concat body)) @ u"
        by (auto split: prod.splits)
      let ?s1 = "s\<lparr>output_buf := output_buf s @ ''```sh'' @ [NL] @ outputs_text rs
                                        @ c @ annotation (concat body)\<rparr>"
      have "process_lines sh s (l # ls) io = process_lines sh ?s1 rest io1"
        using process_lines_closed_block [OF "2.prems"(1,2) True closed(2,3) rc ok] closed(1) by simp
      moreover obtain s' where "process_lines sh ?s1 rest io1 = (Inr s', io')"
          "output_buf s' = output_buf ?s1 @ u"
        using "2.IH"(1) [OF True d, of ?s1 io1 u] "2.prems"(1,2) rest by auto
      ultimately show ?thesis using t by auto
    qed
  qed
qed simp

lemma process_lines_render_fail:
  "\<not> in_eval_blk s \<Longrightarrow> cmd s = [] \<Longrightarrow> render_doc sh (parse_doc ls) io = ((t, True), io') \<Longrightarrow>
   \<exists>io''. process_lines sh s ls io = (Inl (TypeError none_concat_msg), io'')"
proof (induction ls arbitrary: s io t rule: parse_doc.induct)
  case (2 l ls)
  show ?case
  proof (cases "is_eval_open l")
    case False
    from "2.prems"(3) False obtain u where rest: "render_doc sh (parse_doc ls) io = ((u, True), io')"
      by (auto split: prod.splits)
    let ?s1 = "s\<lparr>output_buf := output_buf s @ l\<rparr>"
    have "process_line sh s l io = (Inr ?s1, io)" using "2.prems"(1) False by (simp add: scan_simps)
    with "2.IH"(2) [OF False, of ?s1 io u] "2.prems"(1,2) rest show ?thesis by simp
  next
    case True
    let ?s1 = "s\<lparr>in_eval_blk := True, output_buf := output_buf s @ ''```sh'' @ [NL]\<rparr>"
    have op: "process_line sh s l io = (Inr ?s1, io)" using "2.prems"(1) True by (simp add: scan_simps)
    show ?thesis
    proof (cases ls rule: block_split)
      case unclosed
      with "2.prems"(3) True obtain rs where rc: "run_cmds sh ls io = (rs, io')" and bad: "None \<in> set rs"
        by (auto split: prod.splits)
      show ?thesis using op process_lines_body_fail [of ?s1 ls sh io rs io'] unclosed rc bad by simp
    next
      case (closed body c rest)
      have d: "dropWhile (\<lambda>x. \<not> is_fence_close x) ls = c # rest"
        using closed by (simp add: dropWhile_append2)
      from "2.prems"(3) True closed obtain rs io1 u f2 where rc: "run_cmds sh body io = (rs, io1)"
          and rest: "render_doc sh (parse_doc rest) io1 = ((u, f2), io')" and bad: "None \<in> set rs \<or> f2"
        by (auto split: prod.splits)
      show ?thesis
      proof (cases "None \<in> set rs")
        case True
        then obtain io'' where "process_lines sh ?s1 body io = (Inl (TypeError none_concat_msg), io'')"
          using process_lines_body_fail [of ?s1 body sh io rs io1] closed rc by auto
        then show ?thesis
          using op closed(1) process_lines_Inl_append [of sh ?s1 body io _ io'' "c # rest"] by auto
      next
        case False
        let ?s2 = "s\<lparr>output_buf := output_buf s @ ''```sh'' @ [NL] @ outputs_text rs
                                          @ c @ annotation (concat body)\<rparr>"
        have "process_lines sh s (l # ls) io = process_lines sh ?s2 rest io1"
          using process_lines_closed_block [OF "2.prems"(1,2) \<open>is_eval_open l\<close> closed(2,3) rc False]
            closed(1) by simp
        with "2.IH"(1) [OF \<open>is_eval_open l\<close> d, of ?s2 io1 u] "2.prems"(1,2) rest bad False
        show ?thesis by simp
      qed
    qed
  qed
qed simp

lemma process_fails_if_transform_fails:
  "transform_spec sh ls io = ((t, True), io2) \<Longrightarrow>
   \<exists>io''. process sh ls io = (Inl (TypeError none_concat_msg), io'')"
  using process_lines_render_fail [of scan_init sh ls io t io2]
  by (auto simp: transform_spec_def process_def scan_init_def)

lemma process_transform_iff:
  "process sh ls io = (Inr out, io') \<longleftrightarrow> transform_spec sh ls io = ((out, False), io')"
proof -
  obtain t f io2 where tr: "transform_spec sh ls io = ((t, f), io2)" by (metis prod.exhaust)
  show ?thesis
  proof (cases f)
    case True
    then obtain io'' where "process sh ls io = (Inl (TypeError none_concat_msg), io'')"
      using process_fails_if_transform_fails [of sh ls io t io2] tr True by auto
    with tr True show ?thesis by simp
  next
    case False
    then obtain s' where "process_lines sh scan_init ls io = (Inr s', io2)" "output_buf s' = t"
      using process_lines_render [of scan_init sh ls io t io2] tr
      by (auto simp: transform_spec_def scan_init_def)
    with tr False show ?thesis by (auto simp: process_def)
  qed
qed

text \<open>
  C2: \<open>process\<close> returns a text exactly when the block-level transformation of the
  specification runs every command successfully, and then both give the same text and
  leave the world and the console alike.
\<close>

theorem process_refines_transform:
  "process sh ls io = (Inr out, io') \<longleftrightarrow> transform_spec sh ls io = ((out, False), io')"
  by (rule process_transform_iff)

subsection \<open>Blocks as the specification describes them\<close>

text \<open>
  C8: a closed eval block is replaced by a \<open>```sh\<close> fence, the captured standard
  output of its lines in order (the command lines themselves are not copied), the
  closing line, and the annotation naming the block's stripped command text.
\<close>

theorem process_single_block:
  assumes "is_eval_open opn" "\<forall>x\<in>set body. \<not> is_fence_close x" "is_fence_close c"
    and "run_cmds sh body io = (rs, io')" "None \<notin> set rs"
  shows "process sh (opn # body @ [c]) io =
           (Inr (''```sh'' @ [NL] @ outputs_text rs @ c @ annotation (concat body)), io')"
  using process_lines_closed_block [of scan_init opn body c sh io rs io' "[]"] assms
  by (simp add: process_def scan_init_def)

text \<open>
  C9: a block left open at the end of the document keeps everything produced so far:
  no closing fence and no annotation are added, and no exception is raised.
\<close>

theorem process_unterminated_block:
  assumes "\<forall>x\<in>set pre. \<not> is_eval_open x" "is_eval_open opn" "\<forall>x\<in>set body. \<not> is_fence_close x"
    and "run_cmds sh body io = (rs, io')" "None \<notin> set rs"
  shows "process sh (pre @ opn # body) io = (Inr (concat pre @ ''```sh'' @ [NL] @ outputs_text rs), io')"
proof -
  have "process_lines sh scan_init pre io = (Inr (scan_init\<lparr>output_buf := concat pre\<rparr>), io)"
    using assms(1) by (simp add: process_lines_passthrough scan_init_def)
  then show ?thesis
    using assms(2-5) process_lines_unclosed_block [of "scan_init\<lparr>output_buf := concat pre\<rparr>" opn body sh io rs io']
    by (simp add: process_def process_lines_append scan_init_def)
qed

subsection \<open>Which commands run, and in which order\<close>

text \<open>A shell wrapper that records every command line it is given.\<close>

definition logging :: "'w shell \<Rightarrow> ('w \<times> line list) shell" where
  "logging sh wl c = (case sh (fst wl) c of (r, w') \<Rightarrow> (r, (w', snd wl @ [c])))"

fun doc_cmds :: "segment list \<Rightarrow> line list" where
  "doc_cmds [] = []"
| "doc_cmds (Plain l # gs) = doc_cmds gs"
| "doc_cmds (Block opn body close # gs) = body @ doc_cmds gs"

lemma run_command_logging:
  "snd (world (snd (run_command (logging sh) c io))) = snd (world io) @ [c]"
  using run_command_world [of "logging sh" c io]
  by (simp add: logging_def split: prod.splits)

lemma run_cmds_logging:
  "run_cmds (logging sh) cs io = (rs, io') \<Longrightarrow> snd (world io') = snd (world io) @ cs"
proof (induction cs arbitrary: io rs)
  case (Cons c cs)
  then show ?case
    using run_command_logging [of sh c io] by (auto split: prod.splits)
qed simp

lemma render_doc_logging:
  "render_doc (logging sh) gs io = (r, io') \<Longrightarrow> snd (world io') = snd (world io) @ doc_cmds gs"
proof (induction gs arbitrary: io r)
  case (Cons g gs)
  then show ?case
    by (cases g) (auto split: prod.splits dest!: run_cmds_logging)
qed simp

text \<open>
  C10: when \<open>process\<close> returns, the shell has been called once for each line of each
  eval block, in document order, and for nothing else.
\<close>

theorem process_runs_block_lines_in_order:
  "process (logging sh) ls \<lparr>world = (w, []), console = con\<rparr> = (Inr out, io') \<Longrightarrow>
   snd (world io') = doc_cmds (parse_doc ls)"
  using render_doc_logging [of sh "parse_doc ls" "\<lparr>world = (w, []), console = con\<rparr>" "(out, False)" io']
  by (simp add: process_transform_iff transform_spec_def)

end
