(* ===== verification/Script.thy ===== *)
theory Script
  imports Blocks
begin

text \<open>
  The module body of \<open>src/docgen.py\<close>: the argument check (lines 6--8), which runs
  when the module is loaded, before anything else, and the \<open>try\<close> block that opens
  the document, runs \<open>process\<close> over its lines and prints the result, with its two
  exception handlers (lines 39--46).  \<open>argv\<close> is \<open>prog # args\<close>.  The file system
  maps a path to what opening it gives: \<open>FileNotFoundError\<close>, another exception
  raised by \<open>open\<close> (with its message), or the decoded, readable text together with
  the exception that reading further raises, if any (a decoding error past the part
  already read).  The exit status is the byte the operating system keeps:
  \<open>sys.exit(-1)\<close> exits with \<open>-1 mod 256\<close>; falling off the end of the module exits
  with 0.
\<close>

datatype doc_file =
    NoSuchFile
  | OpenFails string
  | Readable string "string option"

type_synonym file_system = "string \<Rightarrow> doc_file"

definition py_exit_status :: "int \<Rightarrow> 8 word" where
  "py_exit_status n = word_of_int n"

definition usage_msg :: "string \<Rightarrow> string" where
  "usage_msg prog = ''Usage: '' @ prog @ '' <markdown file>''"

definition not_found_msg :: "string \<Rightarrow> string" where
  "not_found_msg path = ''Error: could not open document file '' @ path"

definition unknown_exc_msg :: "string \<Rightarrow> string \<Rightarrow> string" where
  "unknown_exc_msg path e = ''Error: opening document file '' @ path @ '' resulted in unknown exception '' @ e"

text \<open>
  The lines \<open>for l in f\<close> yields.  When the text reads to its end, they are the lines
  of the whole text with its newlines translated.  When reading raises after the
  decoded prefix \<open>txt\<close>, the file object yields only the complete lines of that
  prefix: a last line without its newline, or a carriage return that may still be the
  first half of \<open>"\r\n"\<close>, is held back until more text is decoded, and the
  exception comes first.
\<close>

definition read_lines :: "string \<Rightarrow> string option \<Rightarrow> line list" where
  "read_lines txt rerr =
     (case rerr of
        None \<Rightarrow> split_lines (translate_newlines txt)
      | Some _ \<Rightarrow>
          filter (\<lambda>l. last l = NL)
            (split_lines (translate_newlines (if txt \<noteq> [] \<and> last txt = CR then butlast txt else txt))))"

definition docgen_main ::
  "'w shell \<Rightarrow> string \<Rightarrow> string list \<Rightarrow> file_system \<Rightarrow> 'w io \<Rightarrow> 8 word \<times> 'w io" where
  "docgen_main sh prog args fs io =
     (if length (prog # args) \<noteq> 2 then (py_exit_status (-1), py_print (usage_msg prog) io)
      else
        (case fs (args ! 0) of
           NoSuchFile \<Rightarrow> (0, py_print (not_found_msg (args ! 0)) io)
         | OpenFails e \<Rightarrow> (0, py_print (unknown_exc_msg (args ! 0) e) io)
         | Readable txt rerr \<Rightarrow>
             (case process sh (read_lines txt rerr) io of
                (Inl e, io') \<Rightarrow> (0, py_print (unknown_exc_msg (args ! 0) (exc_str e)) io')
              | (Inr out, io') \<Rightarrow>
                  (case rerr of
                     None \<Rightarrow> (0, py_print out io')
                   | Some e \<Rightarrow> (0, py_print (unknown_exc_msg (args ! 0) e) io')))))"

lemma unat_py_exit_status: "unat (py_exit_status n) = nat (n mod 256)"
  by (simp add: py_exit_status_def unat_eq_nat_uint uint_word_of_int)

lemmas docgen_main_splits = doc_file.splits prod.splits sum.splits option.splits

subsection \<open>Exit status and the argument check\<close>

text \<open>
  C16: the script exits with status 255 (\<open>sys.exit(-1)\<close> wrapped to a byte) exactly
  when it is not given one argument, and with 0 otherwise, whatever happens to the
  document or its commands.
\<close>

theorem docgen_main_exit_status:
  "unat (fst (docgen_main sh prog args fs io)) = (if length args = 1 then 0 else 255)"
  by (auto simp: docgen_main_def unat_py_exit_status split: docgen_main_splits)

text \<open>C17: with a wrong number of arguments only the usage line is printed; no file is
  opened and no command runs.\<close>

theorem docgen_main_usage:
  "length args \<noteq> 1 \<Longrightarrow>
   snd (docgen_main sh prog args fs io) = io\<lparr>console := console io @ usage_msg prog @ [NL]\<rparr>"
  by (simp add: docgen_main_def py_print_def)

subsection \<open>Opening and reading the document\<close>


text \<open>
  C19: a readable document with no eval block is printed as it was read, with its
  newlines translated to \<open>"\n"\<close> and one more newline at the end (from \<open>print\<close>).
\<close>

theorem docgen_main_passthrough:
  assumes "fs path = Readable txt None"
    and "\<forall>l\<in>set (split_lines (translate_newlines txt)). \<not> is_eval_open l"
  shows "docgen_main sh prog [path] fs io = (0, io\<lparr>console := console io @ translate_newlines txt @ [NL]\<rparr>)"
  using assms
  by (simp add: docgen_main_def read_lines_def process_def process_lines_passthrough scan_init_def
                split_lines_def concat_split_lines_from py_print_def)

text \<open>
  C4: when a command of the document fails, the script prints the error message of the
  failed command and then the message of the unexpected \<open>TypeError\<close>, and never the
  document; it still exits with status 0.
\<close>

theorem docgen_main_command_failure:
  assumes "fs path = Readable txt rerr"
    and "transform_spec sh (read_lines txt rerr) io = ((t, True), io2)"
  shows "\<exists>io' msg. docgen_main sh prog [path] fs io = (0, io') \<and>
           console io' = console io @ ''Error: '' @ msg @ [NL] @ unknown_exc_msg path none_concat_msg @ [NL]"
proof -
  obtain io'' where p: "process sh (read_lines txt rerr) io = (Inl (TypeError none_concat_msg), io'')"
    using process_fails_if_transform_fails [OF assms(2)] by blast
  then obtain l ex where "console io'' = console io @ run_error_msg l ex @ [NL]"
    using process_lines_console [of sh scan_init "read_lines txt rerr" io]
    by (auto simp: process_def split: prod.splits sum.splits)
  moreover obtain msg where "run_error_msg l ex = ''Error: '' @ msg"
    using run_error_msg_prefix by blast
  ultimately show ?thesis using p assms(1) by (simp add: docgen_main_def py_print_def)
qed

text \<open>
  C20: when reading fails after a part of the document was decoded, the commands of the
  complete lines of that part have all run, but only the error is printed.
\<close>

theorem docgen_main_read_error:
  assumes "fs path = Readable txt (Some e)"
    and "transform_spec sh (read_lines txt (Some e)) io = ((t, False), io2)"
  shows "docgen_main sh prog [path] fs io = (0, py_print (unknown_exc_msg path e) io2)"
  using assms process_transform_iff [of sh "read_lines txt (Some e)" io t io2]
  by (simp add: docgen_main_def)


subsection \<open>The script against the block-level specification\<close>

text \<open>
  C24: for a document read without error whose commands all succeed, the script prints
  exactly what the block-level transformation of the specification produces, followed
  by the newline of \<open>print\<close>, after the effects of the commands, and exits with 0.
\<close>

theorem docgen_main_refines_transform:
  assumes "fs path = Readable txt None"
    and "transform_spec sh (split_lines (translate_newlines txt)) io = ((out, False), io')"
  shows "docgen_main sh prog [path] fs io = (0, io'\<lparr>console := console io' @ out @ [NL]\<rparr>)"
  using assms process_transform_iff [of sh "split_lines (translate_newlines txt)" io out io']
  by (simp add: docgen_main_def read_lines_def py_print_def)

end
