(* ===== verification/Spec2Isabelle.thy ===== *)
theory Spec2Isabelle
  imports Scanner Script
begin

text \<open>
  Verification of \<open>src/docgen.py\<close> (gparmer/got_tests): a literate-document
  preprocessor.  It copies a Markdown file to standard output; a block opened by a
  line reading \<open>``` eval\<close> or \<open>```eval\<close> and closed by a line reading \<open>```\<close> is
  replaced by a \<open>```sh\<close> fence, the standard output of each of its lines run as a
  separate shell command, the closing fence, and a line
  \<open>Autogenerated with command: `...`.\<close> naming the block's command text.

  \<^bold>\<open>Parts of the program and where they are modelled.\<close>
  \<^item> \<open>Prelude\<close>: the model's type names (a line and a text are \<^typ>\<open>string\<close>),
    the Python exceptions that reach a handler (\<open>py_exc\<close>, with \<open>str(e)\<close> as
    \<open>exc_str\<close>), and the simp collections \<open>docgen_simps\<close> and \<open>scan_simps\<close>.
  \<^item> \<open>PyStr\<close>: the Python string semantics the script relies on, modelled from the
    language reference: \<open>str.isspace\<close> (\<open>py_isspace\<close>, on code points below 256),
    \<open>str.strip\<close> (\<open>py_strip\<close>, with its contract \<open>py_strip_spec\<close>),
    \<open>str.replace\<close> (\<open>py_replace\<close>), the newline translation of text mode
    (\<open>translate_newlines\<close>, shown equal to a one-pass reference \<open>univ_newlines\<close>),
    iteration over a text file by lines (\<open>split_lines\<close>, with the round trip
    \<open>concat (split_lines s) = s\<close>), and \<open>%d\<close> formatting (\<open>py_str_int\<close>, with a
    parse-back round trip).
  \<^item> \<open>Shell\<close>: the shell as an abstract collaborator over a world state \<open>'w\<close>
    (\<open>'w shell\<close>: return code and captured output, or an exception raised while
    starting it), \<open>subprocess.run(..., check=True, text=True)\<close> as
    \<open>subprocess_run\<close>, the message of \<open>CalledProcessError\<close> (\<open>cpe_str\<close>, with the
    Linux signal names), the line each \<open>except\<close> clause prints
    (\<open>run_error_msg\<close>), and \<open>run_command\<close> (lines 10--17), which prints to the
    \<open>console\<close> of an \<open>io\<close> record and returns \<open>None\<close> on failure.
  \<^item> \<open>Process\<close>: \<open>process\<close> (lines 19--37): the record \<open>scan\<close> of its three locals,
    the marker tests \<open>is_fence_close\<close> and \<open>is_eval_open\<close> (lines 24, 32), one
    iteration of the loop as \<open>process_line\<close> (its four branches in the order of the
    code), the loop as \<open>process_lines\<close>, which stops at the first exception.  The
    expression \<open>output += run_command(l)\<close> with a \<open>None\<close> result raises
    \<open>TypeError\<close>; it is a branch of \<open>process_line\<close>.
  \<^item> \<open>Scanner\<close>: the two-mode machine of the specification as an inductive step
    relation \<open>scan_step\<close> and its runs \<open>scan_run\<close>, the run invariant \<open>run_inv\<close> by rule induction, and the simulation of
    \<open>scan_run\<close> by \<open>process_lines\<close>.
  \<^item> \<open>Blocks\<close>: the document as segments (\<open>parse_doc\<close>), the block-level transformation the specification promises
    (\<open>transform_spec\<close>, commands run in order, failures isolated per command), and
    the refinement theorem: \<open>process\<close> returns a text exactly when no command fails,
    and then returns what \<open>transform_spec\<close> gives.
  \<^item> \<open>Script\<close>: the module body (lines 6--8 and 39--46) as \<open>docgen_main\<close>: the
    argument check, the abstract file system (\<open>doc_file\<close>: not found, \<open>open\<close>
    raises, or readable text with the exception that reading further raises), the
    lines the file object yields (\<open>read_lines\<close>: only the complete lines of the
    decoded text when reading raises part way), the two handlers, the printing, and the exit status as an \<open>8 word\<close>
    (\<open>sys.exit(-1)\<close> exits with 255).

  \<^bold>\<open>What the lemmas show.\<close>
  Pass-through of documents without blocks (at the \<open>process\<close> level and the script
  level); the abort of the whole run when a command fails, at both levels, with
  exactly one error line printed (the \<open>except\<close> message of a document line whose
  command raised); the refinement of the block-level specification, at the level of
  \<open>process\<close> and of the script; the scanner invariants (outside a block the command
  text is empty, inside it is the concatenation of the lines since the opener), which
  hold of the code by simulation; that an opener inside a block is a command; that the
  scan returns whenever every command succeeds; the order in which commands run; the
  exact console output on every path of the script; the marker tests as
  whitespace-insensitive comparisons; the exit status on every path.

  \<^bold>\<open>Choices of the model.\<close>
  No fuel is needed: every loop of the script is over a finite list, so each is
  structural recursion or a \<open>function\<close> with a length measure.  Characters are
  \<^typ>\<open>char\<close> (code points below 256), which covers the ASCII markers and the
  Latin-1 whitespace of \<open>str.isspace\<close>; whitespace above 255 is not modelled.  The
  shell and the file system are parameters: every theorem holds for all of them.

  \<^bold>\<open>Not modelled.\<close>  The operating system and \<open>/bin/sh\<close> themselves (only the
  result they report is), buffering of standard output (the console is a string
  written in program order), and the interpreter's own failures (memory, signals
  delivered to the script).  The specification's idempotence of re-runs with
  deterministic commands is not stated as a theorem: in a model where the script is a
  function of the shell's answers it holds of any code, right or wrong.  A finding of the modelling: a failing command makes
  \<open>output += None\<close> raise \<open>TypeError\<close>, so the whole document is lost and only the
  outer handler's message is printed, where the specification promises failure
  isolation per command; \<open>process_command_failure_aborts\<close> and
  \<open>docgen_main_command_failure\<close> prove what the code does.

  This theory holds a concrete shell and file system used by the witnesses.
\<close>

subsection \<open>A concrete shell for the witnesses\<close>

text \<open>
  The world is the number of commands run so far; \<open>echo hello\<close> writes to both
  standard output and standard error, \<open>printf crlf\<close> ends its output with
  \<open>"\r\n"\<close>, \<open>exit 1\<close> fails, anything unknown cannot be run.
\<close>

definition demo_shell :: "nat shell" where
  "demo_shell n c =
     (if c = ''echo hello\<newline>'' then (Completed 0 ''hello\<newline>'' ''warning\<newline>'', Suc n)
      else if c = ''exit 1\<newline>'' then (Completed 1 [] [], Suc n)
      else if c = ''echo ok\<newline>'' then (Completed 0 ''ok\<newline>'' [], Suc n)
      else if c = ''echo a\<newline>'' then (Completed 0 ''a\<newline>'' [], Suc n)
      else if c = ''echo b\<newline>'' then (Completed 0 ''b\<newline>'' [], Suc n)
      else if c = ''printf crlf\<newline>'' then (Completed 0 (''x'' @ [CR, NL]) [], Suc n)
      else (Raised ''[Errno 2] No such file or directory'', Suc n))"

abbreviation io0 :: "nat io" where
  "io0 \<equiv> \<lparr>world = 0, console = []\<rparr>"

subsection \<open>Witnesses for the scanner's properties\<close>

theorem process_passthrough_witness:
  "\<not> is_eval_open ''# Title\<newline>'' \<and> \<not> is_eval_open ''text\<newline>'' \<and>
   process demo_shell [''# Title\<newline>'', ''text\<newline>''] io0 = (Inr ''# Title\<newline>text\<newline>'', io0)"
  using Process.process_passthrough [of "[''# Title\<newline>'', ''text\<newline>'']" demo_shell io0]
  by (simp add: docgen_simps)

theorem process_command_failure_aborts_witness:
  "process_lines demo_shell scan_init [''``` eval\<newline>''] io0
     = (Inr (scan_init\<lparr>in_eval_blk := True, output_buf := ''```sh\<newline>''\<rparr>), io0) \<and>
   in_eval_blk (scan_init\<lparr>in_eval_blk := True, output_buf := ''```sh\<newline>''\<rparr>) \<and>
   \<not> is_fence_close ''exit 1\<newline>'' \<and>
   fst (run_command demo_shell ''exit 1\<newline>'' io0) = None \<and>
   process demo_shell ([''``` eval\<newline>''] @ ''exit 1\<newline>'' # [''echo ok\<newline>'', ''```\<newline>'']) io0
     = (Inl (TypeError none_concat_msg), snd (run_command demo_shell ''exit 1\<newline>'' io0))"
proof -
  have h1: "process_lines demo_shell scan_init [''``` eval\<newline>''] io0
     = (Inr (scan_init\<lparr>in_eval_blk := True, output_buf := ''```sh\<newline>''\<rparr>), io0)"
    by (simp add: process_line_def docgen_simps)
  have h2: "\<not> is_fence_close ''exit 1\<newline>''" by (simp add: docgen_simps)
  have h3: "fst (run_command demo_shell ''exit 1\<newline>'' io0) = None"
    by (simp add: run_command_unfold demo_shell_def)
  show ?thesis
    using h1 h2 h3
      Process.process_command_failure_aborts [OF h1 _ h2 h3, of "[''echo ok\<newline>'', ''```\<newline>'']"]
    by simp
qed

theorem process_open_spelling_witness:
  "\<not> is_eval_open ''text\<newline>'' \<and> py_strip ''``` eval\<newline>'' = ''``` eval'' \<and>
   py_strip ''  ```eval\<newline>'' = ''```eval'' \<and>
   process demo_shell ([''text\<newline>''] @ ''``` eval\<newline>'' # [''echo hello\<newline>'']) io0
   = process demo_shell ([''text\<newline>''] @ ''  ```eval\<newline>'' # [''echo hello\<newline>'']) io0"
proof -
  have h: "\<forall>x\<in>set [''text\<newline>'']. \<not> is_eval_open x" "py_strip ''``` eval\<newline>'' = ''``` eval''"
    "py_strip ''  ```eval\<newline>'' = ''```eval''"
    by (simp_all add: docgen_simps)
  show ?thesis
    using h Process.process_open_spelling [OF h, of demo_shell "[''echo hello\<newline>'']"] by simp
qed

subsection \<open>Witnesses for the machine's invariants\<close>

lemma run_open_example: "scan_run [''``` eval\<newline>''] (True, [])"
  using run_snoc [OF run_nil step_open, of "''``` eval\<newline>''"] by (simp add: docgen_simps)

lemma run_cmd_example: "scan_run [''``` eval\<newline>'', ''echo hello\<newline>''] (True, ''echo hello\<newline>'')"
  using run_snoc [OF run_open_example step_cmd, of "''echo hello\<newline>''"] by (simp add: docgen_simps)

lemma run_close_example:
  "scan_run [''``` eval\<newline>'', ''echo hello\<newline>'', ''```\<newline>''] (False, [])"
  using run_snoc [OF run_cmd_example step_close, of "''```\<newline>''"] by (simp add: docgen_simps)

theorem scan_run_outside_cmd_empty_witness:
  "scan_run [''``` eval\<newline>'', ''echo hello\<newline>'', ''```\<newline>''] (False, []) \<and> ([] :: string) = []"
  using Scanner.scan_run_outside_cmd_empty [OF run_close_example] run_close_example by simp

theorem scan_run_inside_cmd_witness:
  "scan_run [''``` eval\<newline>'', ''echo hello\<newline>''] (True, ''echo hello\<newline>'') \<and>
   (\<exists>pre opn body. [''``` eval\<newline>'', ''echo hello\<newline>''] = pre @ opn # body \<and>
      scan_run pre (False, []) \<and> is_eval_open opn \<and>
      (\<forall>x\<in>set body. \<not> is_fence_close x) \<and> ''echo hello\<newline>'' = concat body)"
  using Scanner.scan_run_inside_cmd [OF run_cmd_example] run_cmd_example by simp

theorem scan_run_cmd_empty_iff_witness:
  "scan_run [''``` eval\<newline>''] (True, []) \<and> ''``` eval\<newline>'' \<noteq> [] \<and>
   (([] :: string) = [] \<longleftrightarrow>
     (\<exists>pre opn. [''``` eval\<newline>''] = pre @ [opn] \<and> scan_run pre (False, []) \<and> is_eval_open opn))"
  using Scanner.scan_run_cmd_empty_iff [OF run_open_example] run_open_example by simp

theorem process_scan_run_witness:
  "process_lines demo_shell scan_init [''``` eval\<newline>'', ''echo hello\<newline>''] io0
     = (Inr \<lparr>output_buf = ''```sh\<newline>hello\<newline>'', in_eval_blk = True, cmd = ''echo hello\<newline>''\<rparr>,
        \<lparr>world = 1, console = []\<rparr>) \<and>
   scan_run [''``` eval\<newline>'', ''echo hello\<newline>''] (True, ''echo hello\<newline>'')"
proof -
  have h: "process_lines demo_shell scan_init [''``` eval\<newline>'', ''echo hello\<newline>''] io0
     = (Inr \<lparr>output_buf = ''```sh\<newline>hello\<newline>'', in_eval_blk = True, cmd = ''echo hello\<newline>''\<rparr>,
        \<lparr>world = 1, console = []\<rparr>)"
    by (simp add: process_line_def docgen_simps run_command_unfold demo_shell_def
                  str_iadd_def translate_newlines_univ)
  show ?thesis using h Scanner.process_scan_run [OF h] by simp
qed

subsection \<open>Witnesses for the block-level properties\<close>

lemmas demo_eval = docgen_simps parse_doc.simps process_line_def run_command_unfold demo_shell_def
  str_iadd_def translate_newlines_univ outputs_text_def transform_spec_def

theorem process_refines_transform_witness:
  "process demo_shell [''``` eval\<newline>'', ''echo hello\<newline>'', ''```\<newline>''] io0
     = (Inr ''```sh\<newline>hello\<newline>```\<newline>Autogenerated with command: `echo hello`.\<newline>'',
        \<lparr>world = 1, console = []\<rparr>) \<and>
   transform_spec demo_shell [''``` eval\<newline>'', ''echo hello\<newline>'', ''```\<newline>''] io0
     = ((''```sh\<newline>hello\<newline>```\<newline>Autogenerated with command: `echo hello`.\<newline>'', False),
        \<lparr>world = 1, console = []\<rparr>)"
proof -
  have h: "process demo_shell [''``` eval\<newline>'', ''echo hello\<newline>'', ''```\<newline>''] io0
     = (Inr ''```sh\<newline>hello\<newline>```\<newline>Autogenerated with command: `echo hello`.\<newline>'',
        \<lparr>world = 1, console = []\<rparr>)"
    by (simp add: process_def demo_eval)
  show ?thesis using h Blocks.process_refines_transform [THEN iffD1, OF h] by simp
qed

theorem process_single_block_witness:
  "is_eval_open ''``` eval\<newline>'' \<and> \<not> is_fence_close ''echo a\<newline>'' \<and> \<not> is_fence_close ''echo b\<newline>'' \<and>
   is_fence_close ''```\<newline>'' \<and>
   run_cmds demo_shell [''echo a\<newline>'', ''echo b\<newline>''] io0
     = ([Some ''a\<newline>'', Some ''b\<newline>''], \<lparr>world = 2, console = []\<rparr>) \<and>
   None \<notin> set [Some ''a\<newline>'', Some ''b\<newline>''] \<and>
   process demo_shell (''``` eval\<newline>'' # [''echo a\<newline>'', ''echo b\<newline>''] @ [''```\<newline>'']) io0
     = (Inr (''```sh\<newline>a\<newline>b\<newline>```\<newline>Autogenerated with command: `echo a\<newline>echo b`.\<newline>''),
        \<lparr>world = 2, console = []\<rparr>)"
proof -
  have h: "is_eval_open ''``` eval\<newline>''" "\<forall>x\<in>set [''echo a\<newline>'', ''echo b\<newline>'']. \<not> is_fence_close x"
    "is_fence_close ''```\<newline>''"
    "run_cmds demo_shell [''echo a\<newline>'', ''echo b\<newline>''] io0
       = ([Some ''a\<newline>'', Some ''b\<newline>''], \<lparr>world = 2, console = []\<rparr>)"
    "None \<notin> set [Some ''a\<newline>'', Some ''b\<newline>'']"
    by (simp_all add: demo_eval)
  have "annotation (concat [''echo a\<newline>'', ''echo b\<newline>''])
      = ''Autogenerated with command: `echo a\<newline>echo b`.\<newline>''"
    by (simp add: docgen_simps)
  then show ?thesis
    using h Blocks.process_single_block [OF h] by (simp add: outputs_text_def)
qed

theorem process_unterminated_block_witness:
  "\<not> is_eval_open ''# T\<newline>'' \<and> is_eval_open ''```eval\<newline>'' \<and> \<not> is_fence_close ''echo ok\<newline>'' \<and>
   run_cmds demo_shell [''echo ok\<newline>''] io0 = ([Some ''ok\<newline>''], \<lparr>world = 1, console = []\<rparr>) \<and>
   None \<notin> set [Some ''ok\<newline>''] \<and>
   process demo_shell ([''# T\<newline>''] @ ''```eval\<newline>'' # [''echo ok\<newline>'']) io0
     = (Inr ''# T\<newline>```sh\<newline>ok\<newline>'', \<lparr>world = 1, console = []\<rparr>)"
proof -
  have h: "\<forall>x\<in>set [''# T\<newline>'']. \<not> is_eval_open x" "is_eval_open ''```eval\<newline>''"
    "\<forall>x\<in>set [''echo ok\<newline>'']. \<not> is_fence_close x"
    "run_cmds demo_shell [''echo ok\<newline>''] io0 = ([Some ''ok\<newline>''], \<lparr>world = 1, console = []\<rparr>)"
    "None \<notin> set [Some ''ok\<newline>'']"
    by (simp_all add: demo_eval)
  show ?thesis using h Blocks.process_unterminated_block [OF h] by (simp add: outputs_text_def)
qed

abbreviation two_blocks :: "line list" where
  "two_blocks \<equiv> [''``` eval\<newline>'', ''echo a\<newline>'', ''echo b\<newline>'', ''```\<newline>'', ''text\<newline>'',
                 ''```eval\<newline>'', ''echo ok\<newline>'']"

theorem process_runs_block_lines_in_order_witness:
  "process (logging demo_shell) two_blocks \<lparr>world = (0, []), console = []\<rparr>
     = (Inr ''```sh\<newline>a\<newline>b\<newline>```\<newline>Autogenerated with command: `echo a\<newline>echo b`.\<newline>text\<newline>```sh\<newline>ok\<newline>'',
        \<lparr>world = (3, [''echo a\<newline>'', ''echo b\<newline>'', ''echo ok\<newline>'']), console = []\<rparr>) \<and>
   [''echo a\<newline>'', ''echo b\<newline>'', ''echo ok\<newline>''] = doc_cmds (parse_doc two_blocks)"
proof -
  have h: "process (logging demo_shell) two_blocks \<lparr>world = (0, []), console = []\<rparr>
     = (Inr ''```sh\<newline>a\<newline>b\<newline>```\<newline>Autogenerated with command: `echo a\<newline>echo b`.\<newline>text\<newline>```sh\<newline>ok\<newline>'',
        \<lparr>world = (3, [''echo a\<newline>'', ''echo b\<newline>'', ''echo ok\<newline>'']), console = []\<rparr>)"
    by (simp add: process_def logging_def demo_eval)
  show ?thesis using h Blocks.process_runs_block_lines_in_order [OF h] by simp
qed

subsection \<open>Witnesses for what the scan prints\<close>

abbreviation failing_doc :: "line list" where
  "failing_doc \<equiv> [''``` eval\<newline>'', ''exit 1\<newline>'', ''echo ok\<newline>'', ''```\<newline>'']"

theorem process_console_witness:
  "process demo_shell failing_doc io0
     = (Inl (TypeError none_concat_msg), snd (run_command demo_shell ''exit 1\<newline>'' io0)) \<and>
   console (snd (run_command demo_shell ''exit 1\<newline>'' io0))
     = run_error_msg ''exit 1\<newline>'' (CalledProcessError 1 ''exit 1\<newline>'') @ [NL] \<and>
   (\<exists>l ex w w'. l \<in> set failing_doc \<and> subprocess_run demo_shell l w = (Inl ex, w') \<and>
      console (snd (run_command demo_shell ''exit 1\<newline>'' io0)) = console io0 @ run_error_msg l ex @ [NL])"
proof -
  have h: "process demo_shell failing_doc io0
     = (Inl (TypeError none_concat_msg), snd (run_command demo_shell ''exit 1\<newline>'' io0))"
    by (simp add: process_def demo_eval)
  have m: "console (snd (run_command demo_shell ''exit 1\<newline>'' io0))
     = run_error_msg ''exit 1\<newline>'' (CalledProcessError 1 ''exit 1\<newline>'') @ [NL]"
    by (simp add: run_command_unfold demo_shell_def)
  show ?thesis using h m Process.process_console [OF h] by simp
qed

abbreviation hello_doc :: "line list" where
  "hello_doc \<equiv> [''``` eval\<newline>'', ''echo hello\<newline>'', ''```\<newline>'']"

abbreviation hello_out :: string where
  "hello_out \<equiv> ''```sh\<newline>hello\<newline>```\<newline>Autogenerated with command: `echo hello`.\<newline>''"

subsection \<open>Witnesses for the marker tests\<close>

theorem is_fence_close_iff_witness:
  "is_fence_close ''  ```\<newline>'' \<and>
   (\<exists>a b. ''  ```\<newline>'' = a @ ''```'' @ b \<and> (\<forall>c\<in>set a. py_isspace c) \<and> (\<forall>c\<in>set b. py_isspace c))"
proof -
  have h: "is_fence_close ''  ```\<newline>''" by (simp add: docgen_simps)
  show ?thesis using h Process.is_fence_close_iff [THEN iffD1, OF h] by simp
qed

theorem is_eval_open_iff_witness:
  "is_eval_open ''```eval \<newline>'' \<and>
   (\<exists>a m b. (m = ''``` eval'' \<or> m = ''```eval'') \<and> ''```eval \<newline>'' = a @ m @ b \<and>
      (\<forall>c\<in>set a. py_isspace c) \<and> (\<forall>c\<in>set b. py_isspace c))"
proof -
  have h: "is_eval_open ''```eval \<newline>''" by (simp add: docgen_simps)
  show ?thesis using h Process.is_eval_open_iff [THEN iffD1, OF h] by simp
qed

subsection \<open>Witnesses for the shell layer\<close>

theorem run_command_Some_iff_witness:
  "fst (run_command demo_shell ''echo hello\<newline>'' io0) = Some ''hello\<newline>'' \<and>
   (\<exists>raw err. fst (demo_shell (world io0) ''echo hello\<newline>'') = Completed 0 raw err \<and>
      ''hello\<newline>'' = translate_newlines raw)"
proof -
  have h: "fst (run_command demo_shell ''echo hello\<newline>'' io0) = Some ''hello\<newline>''"
    by (simp add: demo_eval)
  show ?thesis using h Shell.run_command_Some_iff [THEN iffD1, OF h] by simp
qed

theorem run_command_with_stderr_witness:
  "run_command (with_stderr (\<lambda>_. ''segfault\<newline>'') demo_shell) ''echo hello\<newline>'' io0
     = (Some ''hello\<newline>'', \<lparr>world = 1, console = []\<rparr>)"
  using Shell.run_command_with_stderr [of "\<lambda>_. ''segfault\<newline>''" demo_shell "''echo hello\<newline>''" io0]
  by (simp add: demo_eval)

theorem run_command_no_CR_witness:
  "fst (run_command demo_shell ''printf crlf\<newline>'' io0) = Some ''x\<newline>'' \<and> CR \<notin> set ''x\<newline>''"
proof -
  have h: "fst (run_command demo_shell ''printf crlf\<newline>'' io0) = Some ''x\<newline>''"
    by (simp add: demo_eval)
  show ?thesis using h Shell.run_command_no_CR [OF h] by simp
qed

subsection \<open>A concrete file system and witnesses for the script\<close>

definition demo_fs :: file_system where
  "demo_fs p =
     (if p = ''doc.md'' then Readable (''# T\<newline>'' @ ''``` eval\<newline>exit 1\<newline>echo ok\<newline>```\<newline>'') None
      else if p = ''plain.md'' then Readable (''a'' @ [CR, NL] @ ''b'') None
      else if p = ''bad.md'' then Readable ''``` eval\<newline>echo ok\<newline>echo'' (Some ''invalid start byte'')
      else if p = ''ok.md'' then Readable ''``` eval\<newline>echo hello\<newline>```\<newline>'' None
      else if p = ''secret.md'' then OpenFails ''[Errno 13] Permission denied''
      else NoSuchFile)"

lemmas demo_main = docgen_main_def demo_fs_def py_print_def usage_msg_def not_found_msg_def
  unknown_exc_msg_def split_lines_def translate_newlines_univ

theorem docgen_main_exit_status_witness:
  "unat (fst (docgen_main demo_shell ''docgen.py'' [] demo_fs io0)) = 255 \<and>
   unat (fst (docgen_main demo_shell ''docgen.py'' [''doc.md''] demo_fs io0)) = 0"
  using Script.docgen_main_exit_status [of demo_shell "''docgen.py''" "[]" demo_fs io0]
    Script.docgen_main_exit_status [of demo_shell "''docgen.py''" "[''doc.md'']" demo_fs io0]
  by simp

theorem docgen_main_usage_witness:
  "length ([] :: string list) \<noteq> 1 \<and>
   snd (docgen_main demo_shell ''docgen.py'' [] demo_fs io0)
     = \<lparr>world = 0, console = ''Usage: docgen.py <markdown file>\<newline>''\<rparr>"
  using Script.docgen_main_usage [of "[]" demo_shell "''docgen.py''" demo_fs io0]
  by (simp add: usage_msg_def)


theorem docgen_main_passthrough_witness:
  "demo_fs ''plain.md'' = Readable (''a'' @ [CR, NL] @ ''b'') None \<and>
   \<not> is_eval_open ''a\<newline>'' \<and> \<not> is_eval_open ''b'' \<and>
   docgen_main demo_shell ''docgen.py'' [''plain.md''] demo_fs io0
     = (0, \<lparr>world = 0, console = ''a\<newline>b\<newline>''\<rparr>)"
proof -
  have h1: "demo_fs ''plain.md'' = Readable (''a'' @ [CR, NL] @ ''b'') None" by (simp add: demo_fs_def)
  have h2: "\<forall>l\<in>set (split_lines (translate_newlines (''a'' @ [CR, NL] @ ''b''))). \<not> is_eval_open l"
    by (simp add: split_lines_def translate_newlines_univ docgen_simps)
  have "\<not> is_eval_open ''a\<newline>'' \<and> \<not> is_eval_open ''b''" by (simp add: docgen_simps)
  then show ?thesis
    using Script.docgen_main_passthrough [of demo_fs "''plain.md''" "''a'' @ [CR, NL] @ ''b''"
        demo_shell "''docgen.py''" io0] h1 h2
    by (simp add: translate_newlines_univ)
qed

abbreviation doc_lines :: "line list" where
  "doc_lines \<equiv> read_lines (''# T\<newline>'' @ ''``` eval\<newline>exit 1\<newline>echo ok\<newline>```\<newline>'') None"

theorem docgen_main_command_failure_witness:
  "demo_fs ''doc.md'' = Readable (''# T\<newline>'' @ ''``` eval\<newline>exit 1\<newline>echo ok\<newline>```\<newline>'') None \<and>
   snd (fst (transform_spec demo_shell doc_lines io0)) \<and>
   (\<exists>io' msg. docgen_main demo_shell ''docgen.py'' [''doc.md''] demo_fs io0 = (0, io') \<and>
      console io' = console io0 @ ''Error: '' @ msg @ [NL] @ unknown_exc_msg ''doc.md'' none_concat_msg @ [NL])"
proof -
  have h1: "demo_fs ''doc.md'' = Readable (''# T\<newline>'' @ ''``` eval\<newline>exit 1\<newline>echo ok\<newline>```\<newline>'') None"
    by (simp add: demo_fs_def)
  have lines: "doc_lines = [''# T\<newline>'', ''``` eval\<newline>'', ''exit 1\<newline>'', ''echo ok\<newline>'', ''```\<newline>'']"
    by (simp add: read_lines_def split_lines_def translate_newlines_univ)
  have f: "snd (fst (transform_spec demo_shell doc_lines io0))"
    unfolding lines
    by (simp add: transform_spec_def parse_doc.simps docgen_simps run_command_unfold demo_shell_def)
  then have h2: "transform_spec demo_shell doc_lines io0
      = ((fst (fst (transform_spec demo_shell doc_lines io0)), True), snd (transform_spec demo_shell doc_lines io0))"
    by (cases "transform_spec demo_shell doc_lines io0") auto
  from Script.docgen_main_command_failure [of demo_fs "''doc.md''"
      "''# T\<newline>'' @ ''``` eval\<newline>exit 1\<newline>echo ok\<newline>```\<newline>''" None demo_shell io0
      "fst (fst (transform_spec demo_shell doc_lines io0))" "snd (transform_spec demo_shell doc_lines io0)"
      "''docgen.py''", OF h1 h2]
  have "\<exists>io' msg. docgen_main demo_shell ''docgen.py'' [''doc.md''] demo_fs io0 = (0, io') \<and>
      console io' = console io0 @ ''Error: '' @ msg @ [NL] @ unknown_exc_msg ''doc.md'' none_concat_msg @ [NL]" .
  then show ?thesis by (simp only: h1 f simp_thms)
qed

theorem docgen_main_read_error_witness:
  "demo_fs ''bad.md'' = Readable ''``` eval\<newline>echo ok\<newline>echo'' (Some ''invalid start byte'') \<and>
   read_lines ''``` eval\<newline>echo ok\<newline>echo'' (Some ''invalid start byte'') = [''``` eval\<newline>'', ''echo ok\<newline>''] \<and>
   transform_spec demo_shell (read_lines ''``` eval\<newline>echo ok\<newline>echo'' (Some ''invalid start byte'')) io0
     = ((''```sh\<newline>ok\<newline>'', False), \<lparr>world = 1, console = []\<rparr>) \<and>
   docgen_main demo_shell ''docgen.py'' [''bad.md''] demo_fs io0
     = (0, py_print (unknown_exc_msg ''bad.md'' ''invalid start byte'') \<lparr>world = 1, console = []\<rparr>)"
proof -
  have h1: "demo_fs ''bad.md'' = Readable ''``` eval\<newline>echo ok\<newline>echo'' (Some ''invalid start byte'')"
    by (simp add: demo_fs_def)
  have l: "read_lines ''``` eval\<newline>echo ok\<newline>echo'' (Some ''invalid start byte'')
     = [''``` eval\<newline>'', ''echo ok\<newline>'']"
    by (simp add: read_lines_def split_lines_def translate_newlines_univ)
  have h2: "transform_spec demo_shell (read_lines ''``` eval\<newline>echo ok\<newline>echo'' (Some ''invalid start byte'')) io0
     = ((''```sh\<newline>ok\<newline>'', False), \<lparr>world = 1, console = []\<rparr>)"
    unfolding l by (simp add: demo_eval)
  show ?thesis
    using h1 l h2 Script.docgen_main_read_error [of demo_fs "''bad.md''" "''``` eval\<newline>echo ok\<newline>echo''"
        "''invalid start byte''" demo_shell io0 "''```sh\<newline>ok\<newline>''" "\<lparr>world = 1, console = []\<rparr>" "''docgen.py''"]
    by simp
qed


theorem docgen_main_refines_transform_witness:
  "demo_fs ''ok.md'' = Readable ''``` eval\<newline>echo hello\<newline>```\<newline>'' None \<and>
   transform_spec demo_shell (split_lines (translate_newlines ''``` eval\<newline>echo hello\<newline>```\<newline>'')) io0
     = ((hello_out, False), \<lparr>world = 1, console = []\<rparr>) \<and>
   docgen_main demo_shell ''docgen.py'' [''ok.md''] demo_fs io0 = (0, \<lparr>world = 1, console = hello_out @ [NL]\<rparr>)"
proof -
  have h1: "demo_fs ''ok.md'' = Readable ''``` eval\<newline>echo hello\<newline>```\<newline>'' None"
    by (simp add: demo_fs_def)
  have h2: "transform_spec demo_shell (split_lines (translate_newlines ''``` eval\<newline>echo hello\<newline>```\<newline>'')) io0
     = ((hello_out, False), \<lparr>world = 1, console = []\<rparr>)"
    by (simp add: demo_eval split_lines_def)
  show ?thesis
    using h1 h2 Script.docgen_main_refines_transform [of demo_fs "''ok.md''"
        "''``` eval\<newline>echo hello\<newline>```\<newline>''" demo_shell io0 hello_out
        "\<lparr>world = 1, console = []\<rparr>" "''docgen.py''"]
    by simp
qed

subsection \<open>Witnesses for nesting and liveness\<close>

theorem process_line_nested_open_witness:
  "in_eval_blk (scan_init\<lparr>in_eval_blk := True\<rparr>) \<and> is_eval_open ''```eval\<newline>'' \<and>
   world (snd (process_line demo_shell (scan_init\<lparr>in_eval_blk := True\<rparr>) ''```eval\<newline>'' io0)) = 1"
proof -
  have h1: "in_eval_blk (scan_init\<lparr>in_eval_blk := True\<rparr>)" by simp
  have h2: "is_eval_open ''```eval\<newline>''" by (simp add: docgen_simps)
  have h3: "snd (demo_shell 0 ''```eval\<newline>'') = 1" by (simp add: demo_shell_def)
  show ?thesis
    using h1 h2 h3 Process.process_line_nested_open [OF h1 h2,
        of demo_shell io0 "fst (process_line demo_shell (scan_init\<lparr>in_eval_blk := True\<rparr>) ''```eval\<newline>'' io0)"
           "snd (process_line demo_shell (scan_init\<lparr>in_eval_blk := True\<rparr>) ''```eval\<newline>'' io0)"]
    by simp
qed

definition echo_shell :: "nat shell" where
  "echo_shell n c = (Completed 0 c [], Suc n)"

theorem process_returns_witness:
  "(\<forall>w c. \<exists>raw err. fst (echo_shell w c) = Completed 0 raw err) \<and>
   (\<exists>out io'. process echo_shell hello_doc io0 = (Inr out, io'))"
proof -
  have h: "\<forall>w c. \<exists>raw err. fst (echo_shell w c) = Completed 0 raw err" by (simp add: echo_shell_def)
  show ?thesis using h Process.process_returns [OF h, of hello_doc io0] by blast
qed

end
